theory Spec2Isabelle
  imports Complex_Main
begin

section \<open>Numbers of the source language\<close>

text \<open>
  Every \<open>number\<close> of the TypeScript source is an IEEE double. The model keeps the
  three special values that the arithmetic of the service can produce (division by
  zero gives an infinity or NaN, NaN is absorbing and compares false with everything)
  and idealises the finite values as exact reals: rounding, overflow of finite
  results and the sign of zero are not modelled (a zero divisor is read as +0).
  Where a property depends on the rounding (the profit as a multiple of the fees),
  the lines it is about are modelled again with the rounding of binary64
  (\<open>pnlLines\<close> and \<open>round64\<close> below).
  The comparisons of the source are \<open>jlt\<close> and \<open>jle\<close>; an equation between numbers
  in a statement below says that the two are the same value.
\<close>

datatype jsnum = Fin real | PInf | NInf | NaN

fun jneg :: "jsnum \<Rightarrow> jsnum" where
  "jneg (Fin x) = Fin (- x)"
| "jneg PInf = NInf"
| "jneg NInf = PInf"
| "jneg NaN = NaN"

fun jadd :: "jsnum \<Rightarrow> jsnum \<Rightarrow> jsnum" where
  "jadd (Fin x) (Fin y) = Fin (x + y)"
| "jadd NaN _ = NaN"
| "jadd _ NaN = NaN"
| "jadd PInf NInf = NaN"
| "jadd NInf PInf = NaN"
| "jadd PInf _ = PInf"
| "jadd _ PInf = PInf"
| "jadd NInf _ = NInf"
| "jadd _ NInf = NInf"

definition jsub :: "jsnum \<Rightarrow> jsnum \<Rightarrow> jsnum" where
  "jsub a b = jadd a (jneg b)"

text \<open>The sign of a number that is not NaN, as \<open>-1\<close>, \<open>0\<close> or \<open>1\<close>.\<close>

fun jsign :: "jsnum \<Rightarrow> int" where
  "jsign (Fin x) = (if x < 0 then - 1 else if x = 0 then 0 else 1)"
| "jsign PInf = 1"
| "jsign NInf = - 1"
| "jsign NaN = 0"

definition inf_of_sign :: "int \<Rightarrow> jsnum" where
  "inf_of_sign k = (if k < 0 then NInf else if k = 0 then NaN else PInf)"

fun jmul :: "jsnum \<Rightarrow> jsnum \<Rightarrow> jsnum" where
  "jmul (Fin x) (Fin y) = Fin (x * y)"
| "jmul NaN _ = NaN"
| "jmul _ NaN = NaN"
| "jmul a b = inf_of_sign (jsign a * jsign b)"

fun jdiv :: "jsnum \<Rightarrow> jsnum \<Rightarrow> jsnum" where
  "jdiv (Fin x) (Fin y) = (if y = 0 then inf_of_sign (jsign (Fin x)) else Fin (x / y))"
| "jdiv NaN _ = NaN"
| "jdiv _ NaN = NaN"
| "jdiv (Fin x) _ = Fin 0"
| "jdiv PInf (Fin y) = (if y < 0 then NInf else PInf)"
| "jdiv NInf (Fin y) = (if y < 0 then PInf else NInf)"
| "jdiv _ _ = NaN"

fun jlt :: "jsnum \<Rightarrow> jsnum \<Rightarrow> bool" where
  "jlt (Fin x) (Fin y) = (x < y)"
| "jlt NaN _ = False"
| "jlt _ NaN = False"
| "jlt _ NInf = False"
| "jlt PInf _ = False"
| "jlt _ _ = True"

fun jle :: "jsnum \<Rightarrow> jsnum \<Rightarrow> bool" where
  "jle (Fin x) (Fin y) = (x \<le> y)"
| "jle NaN _ = False"
| "jle _ NaN = False"
| "jle NInf _ = True"
| "jle _ PInf = True"
| "jle _ _ = False"

text \<open>\<open>Math.min\<close> and \<open>Math.max\<close> of two arguments: NaN when either is NaN.\<close>

fun jmin :: "jsnum \<Rightarrow> jsnum \<Rightarrow> jsnum" where
  "jmin NaN _ = NaN"
| "jmin _ NaN = NaN"
| "jmin a b = (if jle a b then a else b)"

fun jmax :: "jsnum \<Rightarrow> jsnum \<Rightarrow> jsnum" where
  "jmax NaN _ = NaN"
| "jmax _ NaN = NaN"
| "jmax a b = (if jle a b then b else a)"

text \<open>\<open>Math.round\<close>: the nearest integer, halves towards \<open>+\<infinity>\<close>.\<close>

fun jround :: "jsnum \<Rightarrow> jsnum" where
  "jround (Fin x) = Fin (of_int \<lfloor>x + 1 / 2\<rfloor>)"
| "jround a = a"

text \<open>\<open>Math.pow\<close> with a natural exponent, \<open>Math.sqrt\<close>.\<close>

fun jpow :: "jsnum \<Rightarrow> nat \<Rightarrow> jsnum" where
  "jpow a 0 = Fin 1"
| "jpow a (Suc n) = jmul a (jpow a n)"

fun jsqrt :: "jsnum \<Rightarrow> jsnum" where
  "jsqrt (Fin x) = (if x < 0 then NaN else Fin (sqrt x))"
| "jsqrt PInf = PInf"
| "jsqrt a = NaN"

text \<open>A number is falsy when it is zero or NaN; \<open>a || d\<close> on numbers.\<close>

fun falsy :: "jsnum \<Rightarrow> bool" where
  "falsy (Fin x) = (x = 0)"
| "falsy NaN = True"
| "falsy _ = False"

definition or_else :: "jsnum \<Rightarrow> jsnum \<Rightarrow> jsnum" where
  "or_else a d = (if falsy a then d else a)"

text \<open>\<open>xs.reduce((sum, x) => sum + x, 0)\<close> and \<open>Math.max(...xs)\<close>.\<close>

definition jsum :: "jsnum list \<Rightarrow> jsnum" where
  "jsum xs = foldl jadd (Fin 0) xs"

definition jmaximum :: "jsnum list \<Rightarrow> jsnum" where
  "jmaximum xs = foldl jmax NInf xs"

definition of_count :: "nat \<Rightarrow> jsnum" where
  "of_count n = Fin (real n)"

section \<open>Data model (types/index.ts)\<close>

datatype RiskLevel = Low | Medium | High

record position_metadata =
  feeTier :: "jsnum option"
  createdAt :: "int option"

text \<open>\<open>PositionData\<close>; dates are milliseconds since the epoch. The field \<open>id\<close> is
  named \<open>id_of\<close> here since \<open>id\<close> is the identity function of HOL, and the
  summary's \<open>totalFeesUSD\<close> is \<open>totalFeesUSD_sum\<close> since a position has a field of
  that name.\<close>

record position =
  id_of :: string
  poolAddress :: string
  pairName :: string
  liquidity :: jsnum
  currentValueUSD :: jsnum
  initialValueUSD :: jsnum
  totalFeesUSD :: jsnum
  pnlUSD :: jsnum
  pnlPercentage :: jsnum
  apy :: jsnum
  tokenXAmount :: jsnum
  tokenYAmount :: jsnum
  tokenXSymbol :: string
  tokenYSymbol :: string
  priceRangeLower :: jsnum
  priceRangeUpper :: jsnum
  currentPrice :: jsnum
  inRange :: bool
  riskLevel :: RiskLevel
  activeBins :: nat
  lastUpdated :: int
  metadata :: "position_metadata option"

record summary_metrics =
  diversificationScore :: nat
  averagePositionSize :: jsnum
  largestPositionSize :: jsnum
  volatilityScore :: jsnum
  uniqueTokens :: nat
  portfolioAge :: int

record portfolio_summary =
  totalValueUSD :: jsnum
  totalPnlUSD :: jsnum
  totalPnlPercentage :: jsnum
  totalFeesUSD_sum :: jsnum
  averageAPY :: jsnum
  activePositions :: nat
  inRangePositions :: nat
  outOfRangePositions :: nat
  riskScore :: jsnum
  topPerformer :: string
  worstPerformer :: string
  metrics :: summary_metrics

section \<open>Risk level of one position\<close>

text \<open>\<open>calculateRiskLevel\<close>. Arithmetic on numbers never throws in the source
  language, so the \<open>catch\<close> branch (which would return Medium) is unreachable and has no
  counterpart here: a zero \<open>lower\<close> gives infinities or NaN, which the comparisons
  then read.\<close>

definition calculateRiskLevel :: "jsnum \<Rightarrow> jsnum \<Rightarrow> jsnum \<Rightarrow> RiskLevel" where
  "calculateRiskLevel lower upper current =
     (let rangePercentage = jdiv (jsub upper lower) lower;
          distanceToLower = jdiv (jsub current lower) lower;
          distanceToUpper = jdiv (jsub upper current) upper;
          minDistance = jmin distanceToLower distanceToUpper
      in if jlt rangePercentage (Fin (5 / 100)) \<and> jlt minDistance (Fin (2 / 100)) then High
         else if jlt rangePercentage (Fin (5 / 100)) \<or> jlt minDistance (Fin (5 / 100)) then Medium
         else Low)"

fun severity :: "RiskLevel \<Rightarrow> nat" where
  "severity Low = 0"
| "severity Medium = 1"
| "severity High = 2"

section \<open>The collaborators and the state of the service\<close>

text \<open>
  A raw position as the SDK hands it over (the source types it \<open>any\<close>; these are the
  members the service reads, and the bin identifiers and bin step it is given but never
  reads). A \<open>BN\<close> is an unbounded integer. Optional members are options.
\<close>

record raw_bin =
  binId :: int
  bin_tokenXAmount :: "int option"
  bin_tokenYAmount :: "int option"

record raw_position =
  raw_id :: "string option"
  raw_lbPair :: string
  raw_bins :: "raw_bin list option"
  raw_tokenXAmount :: "jsnum option"
  raw_tokenYAmount :: "jsnum option"
  raw_createdAt :: "int option"

record lb_pair =
  tokenXMint :: string
  tokenYMint :: string
  feeRate :: "int option"
  binStep :: nat

text \<open>
  A parsed JSON payload, with the value shapes of the oracle's schema
  \<open>{ data: { [id]: { price: number } } }\<close>: objects, numbers and null. An object is the
  list of its members, one per key.
\<close>

datatype json = JNull | JNum real | JObj "(string \<times> json) list"

text \<open>What \<open>fetch\<close> and \<open>response.json()\<close> can do: reject, answer with a status that is
  OK or not, and carry a body that parses or does not.\<close>

datatype http_body = NotJson | Json json

datatype fetch_reply = NetworkError | Response bool nat http_body

datatype ledger_reply = LedgerThrows | LedgerReturns "raw_position list"

datatype pair_reply = PairThrows | PairNull | PairInfo lb_pair

datatype error =
    InvalidPublicKey
  | LedgerError
  | LBPairNotFound
  | NumberTooLarge
  | OracleError
  | TypeError

text \<open>
  The external collaborators are parameters of the model. \<open>validKey\<close> says whether the
  \<open>PublicKey\<close> constructor accepts a string (it throws otherwise). The ledger answers
  depend on the time of the call, the oracle's answer on the number of queries made
  before; every answer comes with the time in milliseconds that the \<open>await\<close> took.
\<close>

record collaborators =
  validKey :: "string \<Rightarrow> bool"
  getPositionsByUser :: "string \<Rightarrow> int \<Rightarrow> ledger_reply \<times> nat"
  getLBPair :: "string \<Rightarrow> int \<Rightarrow> pair_reply \<times> nat"
  fetch :: "string \<Rightarrow> nat \<Rightarrow> fetch_reply \<times> nat"

record cache_entry =
  price :: jsnum
  timestamp :: int

text \<open>
  The state of one service instance: the price cache, the clock that \<open>Date.now()\<close>
  reads, and the log of the token ids the oracle was queried for (a ghost field, to
  count the queries). The clock moves only while an \<open>await\<close> of a collaborator is
  pending.
\<close>

record engine =
  priceCache :: "string \<Rightarrow> cache_entry option"
  clock :: int
  oracleLog :: "string list"

definition CACHE_TTL :: int where
  "CACHE_TTL = 30000"

definition advance :: "nat \<Rightarrow> engine \<Rightarrow> engine" where
  "advance d s = s\<lparr>clock := clock s + int d\<rparr>"

section \<open>Price cache\<close>

text \<open>Reading a member of a JSON value: null has no members (a TypeError), a number
  has none of its own (undefined, here None).\<close>

fun get_member :: "json \<Rightarrow> string \<Rightarrow> error + json option" where
  "get_member JNull k = Inl TypeError"
| "get_member (JNum x) k = Inr None"
| "get_member (JObj kvs) k = Inr (map_of kvs k)"

text \<open>Optional chaining \<open>v?.[k]\<close>: undefined when \<open>v\<close> is undefined or null.\<close>

fun member_opt :: "json option \<Rightarrow> string \<Rightarrow> json option" where
  "member_opt None k = None"
| "member_opt (Some JNull) k = None"
| "member_opt (Some (JNum x)) k = None"
| "member_opt (Some (JObj kvs)) k = map_of kvs k"

text \<open>\<open>v || 1.0\<close>: the default for undefined, null and zero. An object in the place of
  the price is truthy and is kept by the source; it is carried as NaN, which is what
  every later use of a price (a multiplication or a division) makes of it.\<close>

fun price_or_default :: "json option \<Rightarrow> jsnum" where
  "price_or_default None = Fin 1"
| "price_or_default (Some JNull) = Fin 1"
| "price_or_default (Some (JNum x)) = (if x = 0 then Fin 1 else Fin x)"
| "price_or_default (Some (JObj kvs)) = NaN"

text \<open>\<open>data.data?.[mint]?.price || 1.0\<close>\<close>

definition extract_price :: "json \<Rightarrow> string \<Rightarrow> error + jsnum" where
  "extract_price data mint =
     (case get_member data ''data'' of
        Inl e \<Rightarrow> Inl e
      | Inr d \<Rightarrow> Inr (price_or_default (member_opt (member_opt d mint) ''price'')))"

text \<open>The body of the \<open>try\<close> block of \<open>getTokenPrice\<close> after a cache miss: the
  query, with everything that throws as an error value.\<close>

definition queryOracle :: "collaborators \<Rightarrow> string \<Rightarrow> engine \<Rightarrow> (error + jsnum) \<times> engine" where
  "queryOracle env mint s =
     (let (reply, d) = fetch env mint (length (oracleLog s));
          s1 = (advance d s)\<lparr>oracleLog := oracleLog s @ [mint]\<rparr>
      in case reply of
           NetworkError \<Rightarrow> (Inl OracleError, s1)
         | Response ok status body \<Rightarrow>
             if \<not> ok then (Inl OracleError, s1)
             else (case body of
                     NotJson \<Rightarrow> (Inl OracleError, s1)
                   | Json data \<Rightarrow>
                       (case extract_price data mint of
                          Inl e \<Rightarrow> (Inl e, s1)
                        | Inr p \<Rightarrow>
                            (Inr p, s1\<lparr>priceCache := (priceCache s1)
                                (mint \<mapsto> \<lparr>price = p, timestamp = clock s1\<rparr>)\<rparr>))))"

definition cacheHit :: "engine \<Rightarrow> string \<Rightarrow> cache_entry option" where
  "cacheHit s mint =
     (case priceCache s mint of
        None \<Rightarrow> None
      | Some cached \<Rightarrow> if clock s - timestamp cached < CACHE_TTL then Some cached else None)"

definition getTokenPrice :: "collaborators \<Rightarrow> string \<Rightarrow> engine \<Rightarrow> jsnum \<times> engine" where
  "getTokenPrice env mint s =
     (case cacheHit s mint of
        Some cached \<Rightarrow> (price cached, s)
      | None \<Rightarrow>
          (case queryOracle env mint s of
             (Inr p, s') \<Rightarrow> (p, s')
           | (Inl e, s') \<Rightarrow> (Fin 1, s')))"

text \<open>
  A call of \<open>getTokenPrice\<close> is not one step of the service: it reads the cache, and
  after a miss it awaits \<open>fetch\<close> and \<open>response.json()\<close> and writes the cache only
  when the answer is there. Other calls can start in between. The two halves of a
  call: \<open>beginTokenPrice\<close> runs up to the first \<open>await\<close> (a hit is served at once, a
  miss sends the query, whose reply and duration are those of the collaborator), and
  \<open>completeTokenPrice\<close> is the rest of the call, run in the state in which the reply
  arrives. \<open>getTokenPrice\<close> above is the two halves with nothing in between.
\<close>

datatype price_request = Served jsnum | Awaiting fetch_reply nat

definition beginTokenPrice ::
  "collaborators \<Rightarrow> string \<Rightarrow> engine \<Rightarrow> price_request \<times> engine" where
  "beginTokenPrice env mint s =
     (case cacheHit s mint of
        Some cached \<Rightarrow> (Served (price cached), s)
      | None \<Rightarrow>
          (let (reply, d) = fetch env mint (length (oracleLog s))
           in (Awaiting reply d, s\<lparr>oracleLog := oracleLog s @ [mint]\<rparr>)))"

definition completeTokenPrice :: "string \<Rightarrow> fetch_reply \<Rightarrow> engine \<Rightarrow> jsnum \<times> engine" where
  "completeTokenPrice mint reply s =
     (case reply of
        NetworkError \<Rightarrow> (Fin 1, s)
      | Response ok status body \<Rightarrow>
          if \<not> ok then (Fin 1, s)
          else (case body of
                  NotJson \<Rightarrow> (Fin 1, s)
                | Json data \<Rightarrow>
                    (case extract_price data mint of
                       Inl e \<Rightarrow> (Fin 1, s)
                     | Inr p \<Rightarrow>
                         (p, s\<lparr>priceCache := (priceCache s)
                                (mint \<mapsto> \<lparr>price = p, timestamp = clock s\<rparr>)\<rparr>))))"

section \<open>Position processor\<close>

record token_metadata =
  symbol :: string
  name_of :: string
  decimals :: nat

definition getTokenMetadata :: "string \<Rightarrow> token_metadata" where
  "getTokenMetadata mint =
     (if mint = ''So11111111111111111111111111111111111111112''
        then \<lparr>symbol = ''SOL'', name_of = ''Solana'', decimals = 9\<rparr>
      else if mint = ''EPjFWdd5AufqSSqeM2qN1xzybapC8G4wEGGkZwyTDt1v''
        then \<lparr>symbol = ''USDC'', name_of = ''USD Coin'', decimals = 6\<rparr>
      else if mint = ''Es9vMFrzaCERmJfrF4H2FYD4KCoNkY11McCe8BenwNYB''
        then \<lparr>symbol = ''USDT'', name_of = ''Tether USD'', decimals = 6\<rparr>
      else \<lparr>symbol = ''UNKNOWN'', name_of = ''Unknown Token'', decimals = 6\<rparr>)"

text \<open>\<open>BN.toNumber\<close> throws when the magnitude does not fit in 53 bits.\<close>

definition toNumber :: "int \<Rightarrow> error + jsnum" where
  "toNumber n = (if \<bar>n\<bar> < 2 ^ 53 then Inr (Fin (of_int n)) else Inl NumberTooLarge)"

text \<open>One step of a loop of \<open>calculateTokenAmounts\<close>:
  \<open>if (amount) acc += amount.toNumber() / Math.pow(10, 6)\<close>.\<close>

definition addAmount :: "jsnum \<Rightarrow> int option \<Rightarrow> error + jsnum" where
  "addAmount acc amount =
     (case amount of
        None \<Rightarrow> Inr acc
      | Some n \<Rightarrow>
          (case toNumber n of
             Inl e \<Rightarrow> Inl e
           | Inr x \<Rightarrow> Inr (jadd acc (jdiv x (Fin (10 ^ 6))))))"

fun sumBins :: "raw_bin list \<Rightarrow> jsnum \<Rightarrow> jsnum \<Rightarrow> error + (jsnum \<times> jsnum)" where
  "sumBins [] x y = Inr (x, y)"
| "sumBins (b # bs) x y =
     (case addAmount x (bin_tokenXAmount b) of
        Inl e \<Rightarrow> Inl e
      | Inr x' \<Rightarrow>
          (case addAmount y (bin_tokenYAmount b) of
             Inl e \<Rightarrow> Inl e
           | Inr y' \<Rightarrow> sumBins bs x' y'))"

definition calculateTokenAmounts :: "raw_position \<Rightarrow> error + (jsnum \<times> jsnum)" where
  "calculateTokenAmounts position =
     (case raw_bins position of
        None \<Rightarrow> Inr (Fin 0, Fin 0)
      | Some bins \<Rightarrow> sumBins bins (Fin 0) (Fin 0))"

text \<open>\<open>position.tokenXAmount || 0\<close> on an optional number.\<close>

definition amount_or_zero :: "jsnum option \<Rightarrow> jsnum" where
  "amount_or_zero a = (case a of None \<Rightarrow> Fin 0 | Some x \<Rightarrow> or_else x (Fin 0))"

definition calculateFeesUSD :: "raw_position \<Rightarrow> jsnum \<Rightarrow> jsnum \<Rightarrow> jsnum" where
  "calculateFeesUSD position tokenXPrice tokenYPrice =
     (let baseFees = Fin (1 / 10);
          volumeMultiplier = Fin (1 / 1000);
          positionValue = jadd (jmul (amount_or_zero (raw_tokenXAmount position)) tokenXPrice)
                               (jmul (amount_or_zero (raw_tokenYAmount position)) tokenYPrice)
      in jadd baseFees (jmul positionValue volumeMultiplier))"

text \<open>\<open>getPriceRange\<close> reads neither of its arguments.\<close>

definition getPriceRange :: "raw_position \<Rightarrow> lb_pair \<Rightarrow> jsnum \<times> jsnum" where
  "getPriceRange position lbPair =
     (let currentPrice = Fin 1;
          rangePercentage = Fin (1 / 10)
      in (jmul currentPrice (jsub (Fin 1) rangePercentage),
          jmul currentPrice (jadd (Fin 1) rangePercentage)))"

definition binActive :: "raw_bin \<Rightarrow> bool" where
  "binActive b =
     ((case bin_tokenXAmount b of None \<Rightarrow> False | Some n \<Rightarrow> 0 < n) \<or>
      (case bin_tokenYAmount b of None \<Rightarrow> False | Some n \<Rightarrow> 0 < n))"

definition countActiveBins :: "raw_position \<Rightarrow> nat" where
  "countActiveBins position =
     (case raw_bins position of
        None \<Rightarrow> 0
      | Some bins \<Rightarrow> length (filter binActive bins))"

definition DAY_MS :: int where
  "DAY_MS = 1000 * 60 * 60 * 24"

text \<open>\<open>position.createdAt ? new Date(position.createdAt) : fallback\<close>: a creation time
  of zero is falsy.\<close>

definition createdAt_or :: "raw_position \<Rightarrow> int \<Rightarrow> int" where
  "createdAt_or position fallback =
     (case raw_createdAt position of
        None \<Rightarrow> fallback
      | Some t \<Rightarrow> if t = 0 then fallback else t)"

definition calculateAPY :: "int \<Rightarrow> raw_position \<Rightarrow> jsnum \<Rightarrow> jsnum \<Rightarrow> jsnum" where
  "calculateAPY now position feesUSD initialUSD =
     (if jle initialUSD (Fin 0) then Fin 0
      else
        let created = createdAt_or position (now - 7 * 24 * 60 * 60 * 1000);
            daysSinceCreation = jdiv (Fin (of_int (now - created))) (Fin (of_int DAY_MS))
        in if jle daysSinceCreation (Fin 0) then Fin 0
           else
             let dailyReturn = jdiv (jdiv feesUSD initialUSD) daysSinceCreation;
                 annualizedReturn = jsub (jpow (jadd (Fin 1) dailyReturn) 365) (Fin 1);
                 apy = jmin (jmul annualizedReturn (Fin 100)) (Fin 1000)
             in jmax (Fin 0) apy)"

text \<open>The decimal digits of a natural number, for \<open>`pos_${Date.now()}`\<close>.\<close>

fun decimal :: "nat \<Rightarrow> string" where
  "decimal n =
     (if n < 10 then [char_of (48 + n)]
      else decimal (n div 10) @ [char_of (48 + n mod 10)])"

definition show_int :: "int \<Rightarrow> string" where
  "show_int i = (if i < 0 then CHR ''-'' # decimal (nat (- i)) else decimal (nat i))"

text \<open>\<open>position.id || `pos_${Date.now()}`\<close>: the empty string is falsy.\<close>

definition id_or_default :: "raw_position \<Rightarrow> int \<Rightarrow> string" where
  "id_or_default position now =
     (case raw_id position of
        None \<Rightarrow> ''pos_'' @ show_int now
      | Some i \<Rightarrow> if i = [] then ''pos_'' @ show_int now else i)"

text \<open>\<open>lbPair.feeRate ? lbPair.feeRate.toNumber() / 1000000 : 0.01\<close>: a \<open>BN\<close> object
  is truthy whatever its value.\<close>

definition feeTierOf :: "lb_pair \<Rightarrow> error + jsnum" where
  "feeTierOf lbPair =
     (case feeRate lbPair of
        None \<Rightarrow> Inr (Fin (1 / 100))
      | Some r \<Rightarrow>
          (case toNumber r of
             Inl e \<Rightarrow> Inl e
           | Inr x \<Rightarrow> Inr (jdiv x (Fin 1000000))))"

text \<open>The computations of \<open>processPosition\<close> once the pair, the amounts and the two
  prices are known; \<open>now\<close> is the clock, which no longer moves.\<close>

definition buildPosition ::
  "int \<Rightarrow> raw_position \<Rightarrow> lb_pair \<Rightarrow> jsnum \<Rightarrow> jsnum \<Rightarrow> jsnum \<Rightarrow> jsnum \<Rightarrow> jsnum \<Rightarrow> position" where
  "buildPosition now position lbPair amountX amountY tokenXPrice tokenYPrice tier =
     (let tokenXMetadata = getTokenMetadata (tokenXMint lbPair);
          tokenYMetadata = getTokenMetadata (tokenYMint lbPair);
          currentValue = jadd (jmul amountX tokenXPrice) (jmul amountY tokenYPrice);
          feesUSD = calculateFeesUSD position tokenXPrice tokenYPrice;
          initialValue = jmax (Fin 0) (jsub currentValue feesUSD);
          pnl = jadd (jsub currentValue initialValue) feesUSD;
          pnlPct = (if jlt (Fin 0) initialValue
                    then jmul (jdiv pnl initialValue) (Fin 100) else Fin 0);
          apyValue = calculateAPY now position feesUSD initialValue;
          (rangeLower, rangeUpper) = getPriceRange position lbPair;
          priceNow = jdiv tokenYPrice tokenXPrice;
          isInRange = (jle rangeLower priceNow \<and> jle priceNow rangeUpper);
          risk = calculateRiskLevel rangeLower rangeUpper priceNow
      in \<lparr>id_of = id_or_default position now,
          poolAddress = raw_lbPair position,
          pairName = symbol tokenXMetadata @ ''-'' @ symbol tokenYMetadata,
          liquidity = currentValue,
          currentValueUSD = currentValue,
          initialValueUSD = initialValue,
          totalFeesUSD = feesUSD,
          pnlUSD = pnl,
          pnlPercentage = pnlPct,
          apy = apyValue,
          tokenXAmount = amountX,
          tokenYAmount = amountY,
          tokenXSymbol = symbol tokenXMetadata,
          tokenYSymbol = symbol tokenYMetadata,
          priceRangeLower = rangeLower,
          priceRangeUpper = rangeUpper,
          currentPrice = priceNow,
          inRange = isInRange,
          riskLevel = risk,
          activeBins = countActiveBins position,
          lastUpdated = now,
          metadata = Some \<lparr>feeTier = Some tier,
                           createdAt = Some (createdAt_or position now)\<rparr>\<rparr>)"

text \<open>\<open>processPosition\<close>: whatever it throws is rethrown by its \<open>catch\<close>, so an error
  is its result. The state it leaves is kept either way.\<close>

definition processPosition ::
  "collaborators \<Rightarrow> raw_position \<Rightarrow> engine \<Rightarrow> (error + position) \<times> engine" where
  "processPosition env position s =
     (let (reply, d) = getLBPair env (raw_lbPair position) (clock s);
          s1 = advance d s
      in case reply of
           PairThrows \<Rightarrow> (Inl LedgerError, s1)
         | PairNull \<Rightarrow> (Inl LBPairNotFound, s1)
         | PairInfo lbPair \<Rightarrow>
             (case calculateTokenAmounts position of
                Inl e \<Rightarrow> (Inl e, s1)
              | Inr (amountX, amountY) \<Rightarrow>
                  let (tokenXPrice, s2) = getTokenPrice env (tokenXMint lbPair) s1;
                      (tokenYPrice, s3) = getTokenPrice env (tokenYMint lbPair) s2
                  in case feeTierOf lbPair of
                       Inl e \<Rightarrow> (Inl e, s3)
                     | Inr tier \<Rightarrow>
                         (Inr (buildPosition (clock s3) position lbPair amountX amountY
                                 tokenXPrice tokenYPrice tier), s3)))"

section \<open>Data access facade\<close>

definition getMockPositions :: "int \<Rightarrow> position list" where
  "getMockPositions now =
     [\<lparr>id_of = ''mock_pos_1'',
       poolAddress = ''So11111111111111111111111111111111111111112'',
       pairName = ''SOL-USDC'',
       liquidity = Fin 5000,
       currentValueUSD = Fin 5250,
       initialValueUSD = Fin 5000,
       totalFeesUSD = Fin 125,
       pnlUSD = Fin 375,
       pnlPercentage = Fin (75 / 10),
       apy = Fin (152 / 10),
       tokenXAmount = Fin (105 / 10),
       tokenYAmount = Fin 4200,
       tokenXSymbol = ''SOL'',
       tokenYSymbol = ''USDC'',
       priceRangeLower = Fin 95,
       priceRangeUpper = Fin 105,
       currentPrice = Fin 100,
       inRange = True,
       riskLevel = Low,
       activeBins = 12,
       lastUpdated = now,
       metadata = Some \<lparr>feeTier = Some (Fin (1 / 100)),
                        createdAt = Some (now - 7 * 24 * 60 * 60 * 1000)\<rparr>\<rparr>,
      \<lparr>id_of = ''mock_pos_2'',
       poolAddress = ''EPjFWdd5AufqSSqeM2qN1xzybapC8G4wEGGkZwyTDt1v'',
       pairName = ''USDC-USDT'',
       liquidity = Fin 2500,
       currentValueUSD = Fin 2480,
       initialValueUSD = Fin 2500,
       totalFeesUSD = Fin 45,
       pnlUSD = Fin 25,
       pnlPercentage = Fin 1,
       apy = Fin (85 / 10),
       tokenXAmount = Fin 2480,
       tokenYAmount = Fin 2480,
       tokenXSymbol = ''USDC'',
       tokenYSymbol = ''USDT'',
       priceRangeLower = Fin (995 / 1000),
       priceRangeUpper = Fin (1005 / 1000),
       currentPrice = Fin (1002 / 1000),
       inRange = True,
       riskLevel = Low,
       activeBins = 8,
       lastUpdated = now,
       metadata = Some \<lparr>feeTier = Some (Fin (5 / 1000)),
                        createdAt = Some (now - 14 * 24 * 60 * 60 * 1000)\<rparr>\<rparr>,
      \<lparr>id_of = ''mock_pos_3'',
       poolAddress = ''Es9vMFrzaCERmJfrF4H2FYD4KCoNkY11McCe8BenwNYB'',
       pairName = ''SOL-USDT'',
       liquidity = Fin 3000,
       currentValueUSD = Fin 2850,
       initialValueUSD = Fin 3000,
       totalFeesUSD = Fin 60,
       pnlUSD = Fin (- 90),
       pnlPercentage = Fin (- 3),
       apy = Fin (52 / 10),
       tokenXAmount = Fin (85 / 10),
       tokenYAmount = Fin 2850,
       tokenXSymbol = ''SOL'',
       tokenYSymbol = ''USDT'',
       priceRangeLower = Fin 110,
       priceRangeUpper = Fin 120,
       currentPrice = Fin 105,
       inRange = False,
       riskLevel = High,
       activeBins = 5,
       lastUpdated = now,
       metadata = Some \<lparr>feeTier = Some (Fin (2 / 100)),
                        createdAt = Some (now - 3 * 24 * 60 * 60 * 1000)\<rparr>\<rparr>]"

text \<open>The loop of \<open>getUserPositions\<close>: a position whose processing throws is
  skipped.\<close>

fun processAll ::
  "collaborators \<Rightarrow> raw_position list \<Rightarrow> engine \<Rightarrow> position list \<times> engine" where
  "processAll env [] s = ([], s)"
| "processAll env (position # rest) s =
     (case processPosition env position s of
        (Inr processed, s') \<Rightarrow>
          (let (others, s'') = processAll env rest s' in (processed # others, s''))
      | (Inl e, s') \<Rightarrow> processAll env rest s')"

text \<open>The \<open>try\<close> block of \<open>getUserPositions\<close>: \<open>Inl\<close> is what its \<open>catch\<close> receives,
  \<open>Inr\<close> what the block returns.\<close>

definition tryUserPositions ::
  "collaborators \<Rightarrow> string \<Rightarrow> engine \<Rightarrow> (error + position list) \<times> engine" where
  "tryUserPositions env walletAddress s =
     (if \<not> validKey env walletAddress then (Inl InvalidPublicKey, s)
      else
        let (reply, d) = getPositionsByUser env walletAddress (clock s);
            s1 = advance d s
        in case reply of
             LedgerThrows \<Rightarrow> (Inl LedgerError, s1)
           | LedgerReturns positions \<Rightarrow>
               if length positions = 0 then (Inr (getMockPositions (clock s1)), s1)
               else (case processAll env positions s1 of
                       (processed, s2) \<Rightarrow> (Inr processed, s2)))"

text \<open>\<open>getUserPositions\<close>: the result is \<open>Inl\<close> when the promise rejects, \<open>Inr\<close> when it
  resolves.\<close>

definition getUserPositions ::
  "collaborators \<Rightarrow> string \<Rightarrow> engine \<Rightarrow> (error + position list) \<times> engine" where
  "getUserPositions env walletAddress s =
     (case tryUserPositions env walletAddress s of
        (Inr positions, s') \<Rightarrow> (Inr positions, s')
      | (Inl e, s') \<Rightarrow> (Inr (getMockPositions (clock s')), s'))"

section \<open>Portfolio aggregator\<close>

text \<open>\<open>calculatePortfolioRisk\<close>. Nothing in its \<open>try\<close> block throws on a list of
  positions, so the \<open>catch\<close> branch (which would return 50) has no counterpart.\<close>

definition calculatePortfolioRisk :: "position list \<Rightarrow> jsnum" where
  "calculatePortfolioRisk positions =
     (if length positions = 0 then Fin 0
      else
        let totalValue = jsum (map currentValueUSD positions);
            maxPositionValue = jmaximum (map currentValueUSD positions);
            concentrationRisk = jmul (jdiv maxPositionValue totalValue) (Fin 50);
            outOfRangeCount = length (filter (\<lambda>pos. \<not> inRange pos) positions);
            outOfRangeRisk =
              jmul (jdiv (of_count outOfRangeCount) (of_count (length positions))) (Fin 30);
            highRiskCount = length (filter (\<lambda>pos. riskLevel pos = High) positions);
            mediumRiskCount = length (filter (\<lambda>pos. riskLevel pos = Medium) positions);
            individualRisk =
              jdiv (of_count (highRiskCount * 10 + mediumRiskCount * 5))
                   (of_count (length positions));
            score = jmin (Fin 100) (jadd (jadd concentrationRisk outOfRangeRisk) individualRisk)
        in jround score)"

definition countUniqueTokens :: "position list \<Rightarrow> nat" where
  "countUniqueTokens positions =
     length (remdups (concat (map (\<lambda>pos. [tokenXSymbol pos, tokenYSymbol pos]) positions)))"

definition calculateDiversificationScore :: "position list \<Rightarrow> nat" where
  "calculateDiversificationScore positions =
     (if length positions \<le> 1 then 0
      else
        let tokenScore = min 50 (countUniqueTokens positions * 10);
            positionScore = min 50 (length positions * 5)
        in min 100 (tokenScore + positionScore))"

definition calculateVolatilityScore :: "position list \<Rightarrow> jsnum" where
  "calculateVolatilityScore positions =
     (if length positions \<le> 1 then Fin 0
      else
        let pnlPercentages = map pnlPercentage positions;
            mean = jdiv (jsum pnlPercentages) (of_count (length pnlPercentages));
            variance = jdiv (jsum (map (\<lambda>v. jpow (jsub v mean) 2) pnlPercentages))
                            (of_count (length pnlPercentages));
            volatility = jsqrt variance
        in jmin (Fin 100) (jmul volatility (Fin 2)))"

text \<open>\<open>pos.metadata?.createdAt || pos.lastUpdated\<close>: a date object is truthy.\<close>

definition ageStamp :: "position \<Rightarrow> int" where
  "ageStamp pos =
     (case metadata pos of
        None \<Rightarrow> lastUpdated pos
      | Some m \<Rightarrow> (case createdAt m of None \<Rightarrow> lastUpdated pos | Some t \<Rightarrow> t))"

definition calculatePortfolioAge :: "int \<Rightarrow> position list \<Rightarrow> int" where
  "calculatePortfolioAge now positions =
     (case positions of
        [] \<Rightarrow> 0
      | first # rest \<Rightarrow>
          let oldestPosition =
                foldl (\<lambda>oldest pos. if ageStamp pos < ageStamp oldest then pos else oldest)
                      first rest
          in (now - ageStamp oldestPosition) div DAY_MS)"

text \<open>\<open>[...positions].sort((a, b) => b.pnlPercentage - a.pnlPercentage)\<close>: the sort
  is stable, and a comparator result of NaN counts as zero. It is modelled by a stable
  insertion sort, which every stable sort agrees with when the comparator is an
  order.\<close>

definition comesBefore :: "position \<Rightarrow> position \<Rightarrow> bool" where
  "comesBefore a b = (\<not> jlt (Fin 0) (jsub (pnlPercentage b) (pnlPercentage a)))"

fun insertByPnl :: "position \<Rightarrow> position list \<Rightarrow> position list" where
  "insertByPnl a [] = [a]"
| "insertByPnl a (b # bs) = (if comesBefore a b then a # b # bs else b # insertByPnl a bs)"

definition sortByPnl :: "position list \<Rightarrow> position list" where
  "sortByPnl positions = foldr insertByPnl positions []"

definition getEmptyPortfolioSummary :: portfolio_summary where
  "getEmptyPortfolioSummary =
     \<lparr>totalValueUSD = Fin 0,
      totalPnlUSD = Fin 0,
      totalPnlPercentage = Fin 0,
      totalFeesUSD_sum = Fin 0,
      averageAPY = Fin 0,
      activePositions = 0,
      inRangePositions = 0,
      outOfRangePositions = 0,
      riskScore = Fin 0,
      topPerformer = [],
      worstPerformer = [],
      metrics = \<lparr>diversificationScore = 0,
                 averagePositionSize = Fin 0,
                 largestPositionSize = Fin 0,
                 volatilityScore = Fin 0,
                 uniqueTokens = 0,
                 portfolioAge = 0\<rparr>\<rparr>"

text \<open>\<open>getPortfolioSummary\<close>; \<open>now\<close> is the clock. Nothing in its \<open>try\<close> block throws
  on a list of positions, so the \<open>catch\<close> branch has no counterpart. The list is not
  empty where \<open>sortedByPnl[0]\<close> and the last element are read.\<close>

definition getPortfolioSummary :: "int \<Rightarrow> position list \<Rightarrow> portfolio_summary" where
  "getPortfolioSummary now positions =
     (if length positions = 0 then getEmptyPortfolioSummary
      else
        let totalValue = jsum (map currentValueUSD positions);
            totalPnl = jsum (map pnlUSD positions);
            totalFees = jsum (map totalFeesUSD positions);
            totalInitialUSD = jsum (map initialValueUSD positions);
            totalPnlPct = (if jlt (Fin 0) totalInitialUSD
                           then jmul (jdiv totalPnl totalInitialUSD) (Fin 100) else Fin 0);
            weightedAPY =
              jdiv (jsum (map (\<lambda>pos. jmul (apy pos) (currentValueUSD pos)) positions)) totalValue;
            active = length positions;
            inRangeCount = length (filter inRange positions);
            sortedByPnl = sortByPnl positions
        in \<lparr>totalValueUSD = totalValue,
            totalPnlUSD = totalPnl,
            totalPnlPercentage = totalPnlPct,
            totalFeesUSD_sum = totalFees,
            averageAPY = or_else weightedAPY (Fin 0),
            activePositions = active,
            inRangePositions = inRangeCount,
            outOfRangePositions = active - inRangeCount,
            riskScore = calculatePortfolioRisk positions,
            topPerformer = id_of (hd sortedByPnl),
            worstPerformer = id_of (last sortedByPnl),
            metrics = \<lparr>diversificationScore = calculateDiversificationScore positions,
                       averagePositionSize = jdiv totalValue (of_count active),
                       largestPositionSize = jmaximum (map currentValueUSD positions),
                       volatilityScore = calculateVolatilityScore positions,
                       uniqueTokens = countUniqueTokens positions,
                       portfolioAge = calculatePortfolioAge now positions\<rparr>\<rparr>)"

section \<open>The properties' own definitions and concrete inputs\<close>

text \<open>The consistency of profit and loss with the three USD values, in the words of
  the data model: \<open>pnlUSD = currentValueUSD - initialValueUSD + totalFeesUSD\<close> and
  \<open>pnlPercentage = pnlUSD / initialValueUSD * 100\<close>, or 0 when the initial value is not
  positive.\<close>

definition pnl_consistent :: "position \<Rightarrow> bool" where
  "pnl_consistent p =
     (pnlUSD p = jadd (jsub (currentValueUSD p) (initialValueUSD p)) (totalFeesUSD p) \<and>
      pnlPercentage p =
        (if jlt (Fin 0) (initialValueUSD p)
         then jmul (jdiv (pnlUSD p) (initialValueUSD p)) (Fin 100) else Fin 0))"

text \<open>The thresholds of the risk level in the words of the specification:
  High iff \<open>rangePct < 0.05\<close> and \<open>minDist < 0.02\<close>; Medium iff not High and
  (\<open>rangePct < 0.05\<close> or \<open>minDist < 0.05\<close>); Low otherwise.\<close>

definition rangePct :: "jsnum \<Rightarrow> jsnum \<Rightarrow> jsnum" where
  "rangePct lower upper = jdiv (jsub upper lower) lower"

definition minDist :: "jsnum \<Rightarrow> jsnum \<Rightarrow> jsnum \<Rightarrow> jsnum" where
  "minDist lower upper current =
     jmin (jdiv (jsub current lower) lower) (jdiv (jsub upper current) upper)"

definition isHigh :: "jsnum \<Rightarrow> jsnum \<Rightarrow> jsnum \<Rightarrow> bool" where
  "isHigh lower upper current =
     (jlt (rangePct lower upper) (Fin (5 / 100)) \<and>
      jlt (minDist lower upper current) (Fin (2 / 100)))"

definition isMedium :: "jsnum \<Rightarrow> jsnum \<Rightarrow> jsnum \<Rightarrow> bool" where
  "isMedium lower upper current =
     (\<not> isHigh lower upper current \<and>
      (jlt (rangePct lower upper) (Fin (5 / 100)) \<or>
       jlt (minDist lower upper current) (Fin (5 / 100))))"

definition follows_thresholds :: "position \<Rightarrow> bool" where
  "follows_thresholds p =
     ((riskLevel p = High) = isHigh (priceRangeLower p) (priceRangeUpper p) (currentPrice p) \<and>
      (riskLevel p = Medium) = isMedium (priceRangeLower p) (priceRangeUpper p) (currentPrice p) \<and>
      (riskLevel p = Low) =
        (\<not> isHigh (priceRangeLower p) (priceRangeUpper p) (currentPrice p) \<and>
         \<not> isMedium (priceRangeLower p) (priceRangeUpper p) (currentPrice p)))"

text \<open>The ways an oracle query fails. A reply \<open>rejects\<close> when something in the
  \<open>try\<close> block throws: the network error, the status that is not OK, the body that is
  not JSON, and the body \<open>null\<close> (reading \<open>data.data\<close> is a TypeError). A reply
  \<open>lacks_price\<close> when the body parses and the chain \<open>data.data?.[mint]?.price\<close> ends
  in undefined.\<close>

definition rejects :: "fetch_reply \<Rightarrow> bool" where
  "rejects reply =
     (case reply of
        NetworkError \<Rightarrow> True
      | Response ok status body \<Rightarrow>
          (if ok then (case body of NotJson \<Rightarrow> True | Json data \<Rightarrow> data = JNull) else True))"


text \<open>The real number that a finite number stands for.\<close>

fun finite_part :: "jsnum \<Rightarrow> real" where
  "finite_part (Fin x) = x"
| "finite_part a = 0"

text \<open>The six members of a position that the documentation of the demonstration
  set gives.\<close>

definition documented :: "position \<Rightarrow> string \<times> string \<times> jsnum \<times> jsnum \<times> RiskLevel \<times> bool" where
  "documented p = (id_of p, pairName p, currentValueUSD p, pnlUSD p, riskLevel p, inRange p)"

text \<open>Concrete inputs: a service that has just started, token ids, oracle payloads,
  pools, raw positions and collaborators.\<close>

definition freshEngine :: "int \<Rightarrow> engine" where
  "freshEngine t = \<lparr>priceCache = (\<lambda>mint. None), clock = t, oracleLog = []\<rparr>"

definition SOL :: string where
  "SOL = ''So11111111111111111111111111111111111111112''"

definition USDC :: string where
  "USDC = ''EPjFWdd5AufqSSqeM2qN1xzybapC8G4wEGGkZwyTDt1v''"

text \<open>\<open>{"data": {"<mint>": {"price": p}}}\<close> and \<open>{"data": {}}\<close>\<close>

definition quote :: "string \<Rightarrow> real \<Rightarrow> json" where
  "quote mint p = JObj [(''data'', JObj [(mint, JObj [(''price'', JNum p)])])]"

definition noQuote :: json where
  "noQuote = JObj [(''data'', JObj [])]"

definition demoPair :: lb_pair where
  "demoPair = \<lparr>tokenXMint = SOL, tokenYMint = USDC, feeRate = Some 2500, binStep = 25\<rparr>"

definition widePair :: lb_pair where
  "widePair = \<lparr>tokenXMint = SOL, tokenYMint = USDC, feeRate = Some 2500, binStep = 100\<rparr>"

definition demoRaw :: raw_position where
  "demoRaw =
     \<lparr>raw_id = Some ''pos_A'',
      raw_lbPair = ''PoolA'',
      raw_bins = Some [\<lparr>binId = 100, bin_tokenXAmount = Some 2000000,
                         bin_tokenYAmount = Some 300000000\<rparr>,
                       \<lparr>binId = 101, bin_tokenXAmount = None, bin_tokenYAmount = Some 0\<rparr>],
      raw_tokenXAmount = None,
      raw_tokenYAmount = None,
      raw_createdAt = Some 1000\<rparr>"

definition wideRaw :: raw_position where
  "wideRaw =
     \<lparr>raw_id = Some ''pos_B'',
      raw_lbPair = ''PoolB'',
      raw_bins = Some [\<lparr>binId = - 4000, bin_tokenXAmount = Some 2000000,
                         bin_tokenYAmount = Some 300000000\<rparr>,
                       \<lparr>binId = 9000, bin_tokenXAmount = None, bin_tokenYAmount = Some 0\<rparr>],
      raw_tokenXAmount = None,
      raw_tokenYAmount = None,
      raw_createdAt = Some 1000\<rparr>"

text \<open>A position that holds nothing: no bins.\<close>

definition idleRaw :: raw_position where
  "idleRaw =
     \<lparr>raw_id = Some ''pos_idle'',
      raw_lbPair = ''PoolA'',
      raw_bins = Some [],
      raw_tokenXAmount = None,
      raw_tokenYAmount = None,
      raw_createdAt = Some 1000\<rparr>"

text \<open>Collaborators: one wallet address is a valid key; the ledger returns the given
  raw positions after 40 ms and the pair after 25 ms; the oracle gives the given reply
  after 120 ms.\<close>

definition collaboratorsWith ::
  "ledger_reply \<Rightarrow> (string \<Rightarrow> fetch_reply) \<Rightarrow> collaborators" where
  "collaboratorsWith ledger oracle =
     \<lparr>validKey = (\<lambda>w. w = ''wallet''),
      getPositionsByUser = (\<lambda>w t. (ledger, 40)),
      getLBPair = (\<lambda>a t. (PairInfo demoPair, 25)),
      fetch = (\<lambda>mint n. (oracle mint, 120))\<rparr>"

definition demoEnv :: collaborators where
  "demoEnv = collaboratorsWith (LedgerReturns [demoRaw])
               (\<lambda>mint. Response True 200 (Json (quote mint 150)))"

definition idleEnv :: collaborators where
  "idleEnv = collaboratorsWith (LedgerReturns [idleRaw])
               (\<lambda>mint. Response True 200 (Json (quote mint 150)))"

definition emptyEnv :: collaborators where
  "emptyEnv = collaboratorsWith (LedgerReturns [])
                (\<lambda>mint. Response True 200 (Json (quote mint 150)))"

definition downEnv :: collaborators where
  "downEnv = collaboratorsWith LedgerThrows (\<lambda>mint. Response False 503 NotJson)"

definition noQuoteEnv :: collaborators where
  "noQuoteEnv = collaboratorsWith (LedgerReturns [demoRaw])
                  (\<lambda>mint. Response True 200 (Json noQuote))"

text \<open>What \<open>processPosition\<close> makes of \<open>demoRaw\<close> and of \<open>idleRaw\<close> with these
  collaborators, started at time 1000000.\<close>

definition demoProcessed :: position where
  "demoProcessed =
     buildPosition 1000305 demoRaw demoPair (Fin 2) (Fin 300) (Fin 150) (Fin 150) (Fin (1 / 400))"

definition idleProcessed :: position where
  "idleProcessed =
     buildPosition 1000305 idleRaw demoPair (Fin 0) (Fin 0) (Fin 150) (Fin 150) (Fin (1 / 400))"

section \<open>Profit and loss in binary64\<close>

text \<open>
  The three lines of \<open>processPosition\<close> that derive the initial value and the profit,
  \<open>initialValueUSD = Math.max(0, currentValueUSD - feesUSD)\<close> and
  \<open>pnlUSD = currentValueUSD - initialValueUSD + feesUSD\<close>, with every sum and
  difference passed through a rounding function. With the identity as rounding they
  are what \<open>buildPosition\<close> computes on finite numbers; with \<open>round64\<close> they are what
  the source computes on doubles.
\<close>

definition pnlLines :: "(real \<Rightarrow> real) \<Rightarrow> real \<Rightarrow> real \<Rightarrow> real \<times> real" where
  "pnlLines rnd currentValue feesUSD =
     (let initialValue = max 0 (rnd (currentValue - feesUSD));
          pnl = rnd (rnd (currentValue - initialValue) + feesUSD)
      in (initialValue, pnl))"

text \<open>Rounding to the nearest integer, a tie to the even one.\<close>

definition round_even :: "real \<Rightarrow> int" where
  "round_even y =
     (let n = \<lfloor>y\<rfloor>; r = y - of_int n
      in if r < 1 / 2 then n else if 1 / 2 < r then n + 1 else if even n then n else n + 1)"

text \<open>
  Rounding of a real number to the nearest number with a significand of 53 bits, a
  tie to the even significand: the rounding of binary64. The exponent is not bounded.
  For a sum or difference of two doubles that is below \<open>2 ^ 1024\<close> in magnitude this
  is the result of the binary64 operation (a result in the subnormal range is exact
  in both); a result that overflows to an infinity is not modelled.
\<close>

definition round64 :: "real \<Rightarrow> real" where
  "round64 x =
     (if x = 0 then 0
      else let q = 2 powi (\<lfloor>log 2 \<bar>x\<bar>\<rfloor> - 52)
           in of_int (round_even (x / q)) * q)"

section \<open>Arithmetic on finite numbers\<close>

lemma jsub_Fin [simp]: "jsub (Fin a) (Fin b) = Fin (a - b)"
  by (simp add: jsub_def)

lemma jmax_Fin [simp]: "jmax (Fin a) (Fin b) = Fin (max a b)"
  by (simp add: max_def)

lemma jmin_Fin [simp]: "jmin (Fin a) (Fin b) = Fin (min a b)"
  by (simp add: min_def)

lemma calculateRiskLevel_Fin:
  assumes "l \<noteq> 0" "u \<noteq> 0"
  shows "calculateRiskLevel (Fin l) (Fin u) (Fin c) =
     (if (u - l) / l < 5 / 100 \<and> min ((c - l) / l) ((u - c) / u) < 2 / 100 then High
      else if (u - l) / l < 5 / 100 \<or> min ((c - l) / l) ((u - c) / u) < 5 / 100 then Medium
      else Low)"
  using assms by (simp add: calculateRiskLevel_def Let_def)

section \<open>Evaluation of the concrete inputs\<close>

lemmas input_defs =
  collaboratorsWith_def demoEnv_def idleEnv_def emptyEnv_def downEnv_def noQuoteEnv_def
  demoRaw_def idleRaw_def demoPair_def quote_def noQuote_def SOL_def USDC_def

lemma freshEngine_simps:
  "priceCache (freshEngine t) = (\<lambda>mint. None)"
  "clock (freshEngine t) = t"
  "oracleLog (freshEngine t) = []"
  by (simp_all add: freshEngine_def)

lemmas price_defs =
  getTokenPrice_def cacheHit_def queryOracle_def extract_price_def advance_def CACHE_TTL_def

lemmas processor_defs =
  processPosition_def calculateTokenAmounts_def addAmount_def toNumber_def feeTierOf_def

lemma demo_run:
  "fst (getUserPositions demoEnv ''wallet'' (freshEngine 1000000)) = Inr [demoProcessed]"
  by (simp add: getUserPositions_def tryUserPositions_def processor_defs price_defs input_defs
        freshEngine_def demoProcessed_def Let_def)

lemma idle_run:
  "fst (getUserPositions idleEnv ''wallet'' (freshEngine 1000000)) = Inr [idleProcessed]"
  by (simp add: getUserPositions_def tryUserPositions_def processor_defs price_defs input_defs
        freshEngine_def idleProcessed_def Let_def)

lemma demo_process:
  "fst (processPosition demoEnv demoRaw (freshEngine 1000040)) = Inr demoProcessed"
  by (simp add: processor_defs price_defs input_defs freshEngine_def demoProcessed_def Let_def)

lemma getPriceRange_const: "getPriceRange position lbPair = (Fin (9 / 10), Fin (11 / 10))"
  by (simp add: getPriceRange_def)

lemma demoProcessed_values:
  "currentValueUSD demoProcessed = Fin 45300"
  "totalFeesUSD demoProcessed = Fin (1 / 10)"
  "initialValueUSD demoProcessed = Fin (452999 / 10)"
  "pnlUSD demoProcessed = Fin (2 / 10)"
  "pnlPercentage demoProcessed = Fin (200 / 452999)"
  "priceRangeLower demoProcessed = Fin (9 / 10)"
  "priceRangeUpper demoProcessed = Fin (11 / 10)"
  "currentPrice demoProcessed = Fin 1"
  "riskLevel demoProcessed = Low"
  by (simp_all add: demoProcessed_def buildPosition_def calculateFeesUSD_def amount_or_zero_def
        getPriceRange_const calculateRiskLevel_Fin demoRaw_def Let_def)

lemma idleProcessed_values:
  "currentValueUSD idleProcessed = Fin 0"
  "inRange idleProcessed"
  "riskLevel idleProcessed = Low"
  by (simp_all add: idleProcessed_def buildPosition_def calculateFeesUSD_def amount_or_zero_def
        getPriceRange_const calculateRiskLevel_Fin idleRaw_def Let_def)

section \<open>What the position processor builds\<close>

lemma processPosition_built:
  assumes "processPosition env rp s = (Inr p, s')"
  obtains lbPair d amountX amountY px py s2 tier where
    "getLBPair env (raw_lbPair rp) (clock s) = (PairInfo lbPair, d)"
    "calculateTokenAmounts rp = Inr (amountX, amountY)"
    "getTokenPrice env (tokenXMint lbPair) (advance d s) = (px, s2)"
    "getTokenPrice env (tokenYMint lbPair) s2 = (py, s')"
    "feeTierOf lbPair = Inr tier"
    "p = buildPosition (clock s') rp lbPair amountX amountY px py tier"
  using assms
  by (auto simp: processPosition_def Let_def split: prod.splits pair_reply.splits sum.splits)

lemma buildPosition_pnl:
  "pnlUSD (buildPosition now rp lbPair ax ay px py tier) =
     jadd (jsub (currentValueUSD (buildPosition now rp lbPair ax ay px py tier))
                (initialValueUSD (buildPosition now rp lbPair ax ay px py tier)))
          (totalFeesUSD (buildPosition now rp lbPair ax ay px py tier))"
  by (simp add: buildPosition_def Let_def split: prod.splits)

lemma buildPosition_pnlPercentage:
  "pnlPercentage (buildPosition now rp lbPair ax ay px py tier) =
     (if jlt (Fin 0) (initialValueUSD (buildPosition now rp lbPair ax ay px py tier))
      then jmul (jdiv (pnlUSD (buildPosition now rp lbPair ax ay px py tier))
                      (initialValueUSD (buildPosition now rp lbPair ax ay px py tier))) (Fin 100)
      else Fin 0)"
  by (simp add: buildPosition_def Let_def split: prod.splits)

lemma buildPosition_initial:
  "initialValueUSD (buildPosition now rp lbPair ax ay px py tier) =
     jmax (Fin 0) (jsub (currentValueUSD (buildPosition now rp lbPair ax ay px py tier))
                        (totalFeesUSD (buildPosition now rp lbPair ax ay px py tier)))"
  by (simp add: buildPosition_def Let_def split: prod.splits)

lemma buildPosition_range:
  "priceRangeLower (buildPosition now rp lbPair ax ay px py tier) = Fin (9 / 10)"
  "priceRangeUpper (buildPosition now rp lbPair ax ay px py tier) = Fin (11 / 10)"
  by (simp_all add: buildPosition_def Let_def getPriceRange_const)

lemma buildPosition_risk:
  "riskLevel (buildPosition now rp lbPair ax ay px py tier) =
     calculateRiskLevel (priceRangeLower (buildPosition now rp lbPair ax ay px py tier))
                        (priceRangeUpper (buildPosition now rp lbPair ax ay px py tier))
                        (currentPrice (buildPosition now rp lbPair ax ay px py tier))"
  by (simp add: buildPosition_def Let_def split: prod.splits)

lemma processAll_member:
  assumes "processAll env rps s = (ps, s')" "p \<in> set ps"
  shows "\<exists>rp s0 s1. rp \<in> set rps \<and> processPosition env rp s0 = (Inr p, s1)"
  using assms
proof (induction rps arbitrary: s ps)
  case Nil
  then show ?case by simp
next
  case (Cons rp rps)
  obtain r s1 where step: "processPosition env rp s = (r, s1)"
    by (cases "processPosition env rp s")
  show ?case
  proof (cases r)
    case (Inl e)
    with Cons.prems step have "processAll env rps s1 = (ps, s')" by simp
    from Cons.IH [OF this Cons.prems(2)] show ?thesis by auto
  next
    case (Inr q)
    obtain qs s2 where rest: "processAll env rps s1 = (qs, s2)"
      by (cases "processAll env rps s1")
    with Cons.prems step Inr have ps: "ps = q # qs" and s2: "s2 = s'" by simp_all
    show ?thesis
    proof (cases "p = q")
      case True
      with step Inr show ?thesis by auto
    next
      case False
      with ps Cons.prems(2) have "p \<in> set qs" by simp
      from Cons.IH [OF rest [unfolded s2] this] show ?thesis by auto
    qed
  qed
qed

section \<open>The branches of the facade\<close>

lemma getUserPositions_cases:
  assumes "getUserPositions env w s = (r, s')"
  shows "r = Inr (getMockPositions (clock s')) \<or>
         (\<exists>rps s1 ps. rps \<noteq> [] \<and> validKey env w \<and>
            fst (getPositionsByUser env w (clock s)) = LedgerReturns rps \<and>
            processAll env rps s1 = (ps, s') \<and> r = Inr ps)"
  using assms
  by (auto simp: getUserPositions_def tryUserPositions_def Let_def
           split: prod.splits sum.splits ledger_reply.splits if_splits)

lemma getUserPositions_processed:
  assumes "validKey env w"
    and "fst (getPositionsByUser env w (clock s)) = LedgerReturns rps"
    and "rps \<noteq> []"
    and "fst (getUserPositions env w s) = Inr ps"
    and "p \<in> set ps"
  shows "\<exists>rp s0 s1. rp \<in> set rps \<and> processPosition env rp s0 = (Inr p, s1)"
proof -
  obtain d where reply: "getPositionsByUser env w (clock s) = (LedgerReturns rps, d)"
    using assms(2) by (cases "getPositionsByUser env w (clock s)") simp
  obtain qs s2 where run: "processAll env rps (advance d s) = (qs, s2)"
    by (cases "processAll env rps (advance d s)")
  from assms(1,3) reply run have "fst (getUserPositions env w s) = Inr qs"
    by (simp add: getUserPositions_def tryUserPositions_def)
  with assms(4) have "qs = ps" by simp
  with run assms(5) show ?thesis
    using processAll_member by blast
qed

lemma mock_pnl_consistent: "p \<in> set (getMockPositions now) \<Longrightarrow> pnl_consistent p"
  by (auto simp: getMockPositions_def pnl_consistent_def)

lemma processed_pnl_consistent:
  assumes "processPosition env rp s = (Inr p, s')"
  shows "pnl_consistent p"
proof -
  from assms obtain lbPair ax ay px py tier
    where "p = buildPosition (clock s') rp lbPair ax ay px py tier"
    by (rule processPosition_built)
  then show ?thesis
    unfolding pnl_consistent_def
    using buildPosition_pnl buildPosition_pnlPercentage by simp
qed

section \<open>Profit and loss\<close>

text \<open>
  C1. Every position that \<open>getUserPositions\<close> returns, whether \<open>processPosition\<close>
  built it or it is one of the demonstration positions, has
  \<open>pnlUSD = currentValueUSD - initialValueUSD + totalFeesUSD\<close>, and its
  \<open>pnlPercentage\<close> is \<open>pnlUSD / initialValueUSD * 100\<close> when the initial value is
  positive and 0 otherwise.
\<close>

theorem pnl_consistent_output:
  assumes "fst (getUserPositions env w s) = Inr ps" and "p \<in> set ps"
  shows "pnlUSD p = jadd (jsub (currentValueUSD p) (initialValueUSD p)) (totalFeesUSD p) \<and>
         pnlPercentage p =
           (if jlt (Fin 0) (initialValueUSD p)
            then jmul (jdiv (pnlUSD p) (initialValueUSD p)) (Fin 100) else Fin 0)"
proof -
  obtain r s' where run: "getUserPositions env w s = (r, s')"
    by (cases "getUserPositions env w s")
  with assms(1) have r: "r = Inr ps" by simp
  from getUserPositions_cases [OF run] have "pnl_consistent p"
  proof
    assume "r = Inr (getMockPositions (clock s'))"
    with r assms(2) have "p \<in> set (getMockPositions (clock s'))" by simp
    then show ?thesis by (rule mock_pnl_consistent)
  next
    assume "\<exists>rps s1 qs. rps \<noteq> [] \<and> validKey env w \<and>
              fst (getPositionsByUser env w (clock s)) = LedgerReturns rps \<and>
              processAll env rps s1 = (qs, s') \<and> r = Inr qs"
    then obtain rps s1 where "processAll env rps s1 = (ps, s')"
      using r by auto
    from processAll_member [OF this assms(2)] show ?thesis
      using processed_pnl_consistent by blast
  qed
  then show ?thesis
    by (simp add: pnl_consistent_def)
qed

theorem pnl_consistent_output_witness:
  "fst (getUserPositions demoEnv ''wallet'' (freshEngine 1000000)) = Inr [demoProcessed] \<and>
   demoProcessed \<in> set [demoProcessed] \<and>
   pnlUSD demoProcessed = Fin (2 / 10) \<and>
   jadd (jsub (currentValueUSD demoProcessed) (initialValueUSD demoProcessed))
        (totalFeesUSD demoProcessed) = Fin (2 / 10) \<and>
   pnlPercentage demoProcessed =
     jmul (jdiv (pnlUSD demoProcessed) (initialValueUSD demoProcessed)) (Fin 100)"
  using pnl_consistent_output [OF demo_run, of demoProcessed]
  by (simp add: demo_run demoProcessed_values)

text \<open>In exact arithmetic: when the current value of a processed position covers its
  fees, the initial value is their difference and the profit is twice the fees; below
  the fees the initial value is clamped to 0, and the profit is the value plus the
  fees.\<close>

lemma exact_pnl_twice_fees:
  assumes "processPosition env rp s = (Inr p, s')"
    and "currentValueUSD p = Fin c" and "totalFeesUSD p = Fin f" and "f \<le> c"
  shows "initialValueUSD p = Fin (c - f) \<and> pnlUSD p = jmul (Fin 2) (totalFeesUSD p)"
proof -
  from assms(1) obtain lbPair ax ay px py tier
    where p: "p = buildPosition (clock s') rp lbPair ax ay px py tier"
    by (rule processPosition_built)
  have "initialValueUSD p = jmax (Fin 0) (jsub (currentValueUSD p) (totalFeesUSD p))"
    unfolding p by (rule buildPosition_initial)
  with assms(2-4) have initial: "initialValueUSD p = Fin (c - f)"
    by simp
  have "pnlUSD p = jadd (jsub (currentValueUSD p) (initialValueUSD p)) (totalFeesUSD p)"
    unfolding p by (rule buildPosition_pnl)
  with assms(2,3) initial have "pnlUSD p = jmul (Fin 2) (totalFeesUSD p)"
    by simp
  with initial show ?thesis ..
qed

lemma pnl_below_fees:
  assumes "processPosition env rp s = (Inr p, s')"
    and "currentValueUSD p = Fin c" and "totalFeesUSD p = Fin f" and "c < f"
  shows "initialValueUSD p = Fin 0 \<and> pnlUSD p = Fin (c + f)"
proof -
  from assms(1) obtain lbPair ax ay px py tier
    where p: "p = buildPosition (clock s') rp lbPair ax ay px py tier"
    by (rule processPosition_built)
  have "initialValueUSD p = jmax (Fin 0) (jsub (currentValueUSD p) (totalFeesUSD p))"
    unfolding p by (rule buildPosition_initial)
  with assms(2-4) have initial: "initialValueUSD p = Fin 0"
    by simp
  have "pnlUSD p = jadd (jsub (currentValueUSD p) (initialValueUSD p)) (totalFeesUSD p)"
    unfolding p by (rule buildPosition_pnl)
  with assms(2,3) initial show ?thesis
    by simp
qed

text \<open>The fields of a processed position are the three lines without rounding.\<close>

lemma processed_pnlLines:
  assumes "processPosition env rp s = (Inr p, s')"
    and "currentValueUSD p = Fin c" and "totalFeesUSD p = Fin f"
  shows "initialValueUSD p = Fin (fst (pnlLines id c f))"
    and "pnlUSD p = Fin (snd (pnlLines id c f))"
proof -
  from assms(1) obtain lbPair ax ay px py tier
    where p: "p = buildPosition (clock s') rp lbPair ax ay px py tier"
    by (rule processPosition_built)
  have "initialValueUSD p = jmax (Fin 0) (jsub (currentValueUSD p) (totalFeesUSD p))"
    unfolding p by (rule buildPosition_initial)
  with assms(2,3) show initial: "initialValueUSD p = Fin (fst (pnlLines id c f))"
    by (simp add: pnlLines_def)
  have "pnlUSD p = jadd (jsub (currentValueUSD p) (initialValueUSD p)) (totalFeesUSD p)"
    unfolding p by (rule buildPosition_pnl)
  with assms(2,3) initial show "pnlUSD p = Fin (snd (pnlLines id c f))"
    by (simp add: pnlLines_def Let_def)
qed

subsection \<open>The error of the rounding\<close>

lemma round_even_error: "\<bar>of_int (round_even y) - y\<bar> \<le> 1 / 2"
proof -
  have "of_int \<lfloor>y\<rfloor> \<le> y" "y < of_int \<lfloor>y\<rfloor> + 1"
    by linarith+
  then show ?thesis
    by (auto simp: round_even_def Let_def)
qed

lemma two_powi_floor_log_le:
  assumes "0 < a"
  shows "2 powi \<lfloor>log 2 a\<rfloor> \<le> a"
proof -
  have "2 powr real_of_int \<lfloor>log 2 a\<rfloor> \<le> a"
    using floor_log_eq_powr_iff [of a 2 "\<lfloor>log 2 a\<rfloor>"] assms by simp
  then show ?thesis
    by (simp add: powr_real_of_int')
qed

lemma floor_log_between:
  assumes "2 powi k \<le> a" "a < 2 powi (k + 1)"
  shows "\<lfloor>log 2 a\<rfloor> = k"
proof -
  have "0 < (2 :: real) powi k" by simp
  with assms(1) have a: "0 < a" by linarith
  have "2 powr real_of_int k \<le> a" "a < 2 powr (real_of_int k + 1)"
    using assms powr_real_of_int' [of 2 k] powr_real_of_int' [of 2 "k + 1"] by simp_all
  with a show ?thesis
    using floor_log_eq_powr_iff [of a 2 k] by simp
qed

lemma round64_between:
  assumes "2 powi k \<le> \<bar>x\<bar>" "\<bar>x\<bar> < 2 powi (k + 1)"
  shows "round64 x = of_int (round_even (x / 2 powi (k - 52))) * 2 powi (k - 52)"
proof -
  have "0 < (2 :: real) powi k" by simp
  with assms(1) have "0 < \<bar>x\<bar>" by linarith
  then have "x \<noteq> 0" by simp
  with floor_log_between [OF assms] show ?thesis
    by (simp add: round64_def Let_def)
qed

lemma round64_error: "\<bar>round64 x - x\<bar> \<le> \<bar>x\<bar> / 2 ^ 53"
proof (cases "x = 0")
  case True
  then show ?thesis by (simp add: round64_def)
next
  case False
  define k where "k = \<lfloor>log 2 \<bar>x\<bar>\<rfloor>"
  define q :: real where "q = 2 powi (k - 52)"
  have q: "0 < q" by (simp add: q_def)
  have low: "2 powi k \<le> \<bar>x\<bar>"
    unfolding k_def using False by (intro two_powi_floor_log_le) simp
  have "round64 x = of_int (round_even (x / q)) * q"
    using False by (simp add: round64_def k_def q_def Let_def)
  then have "round64 x - x = (of_int (round_even (x / q)) - x / q) * q"
    using q by (simp add: algebra_simps)
  then have "\<bar>round64 x - x\<bar> = \<bar>of_int (round_even (x / q)) - x / q\<bar> * q"
    using q by (simp add: abs_mult)
  also have "\<dots> \<le> 1 / 2 * q"
    using q round_even_error [of "x / q"] by (intro mult_right_mono) simp_all
  also have "1 / 2 * q = 2 powi k / 2 ^ 53"
    by (simp add: q_def power_int_diff)
  also have "\<dots> \<le> \<bar>x\<bar> / 2 ^ 53"
    using low by (simp add: divide_right_mono)
  finally show ?thesis .
qed

text \<open>The three lines with any rounding of relative error at most \<open>u\<close>: the
  profit is within \<open>4 u\<close> times the current value of twice the fees.\<close>

lemma pnlLines_error:
  fixes rnd :: "real \<Rightarrow> real"
  assumes rnd: "\<And>x. \<bar>rnd x - x\<bar> \<le> u * \<bar>x\<bar>"
    and u: "0 \<le> u" "u \<le> 1"
    and f: "0 \<le> f" "f \<le> c"
  shows "\<bar>snd (pnlLines rnd c f) - 2 * f\<bar> \<le> 4 * u * c"
proof -
  define a where "a = c - f"
  define i where "i = rnd a"
  define b where "b = c - i"
  define d where "d = rnd b"
  define p where "p = rnd (d + f)"
  have a: "0 \<le> a" using f by (simp add: a_def)
  have ua: "u * a \<le> a" "0 \<le> u * a"
    using u a by (simp_all add: mult_left_le_one_le)
  have uf: "u * f \<le> f" "0 \<le> u * f"
    using u f by (simp_all add: mult_left_le_one_le)
  have ei: "\<bar>i - a\<bar> \<le> u * a"
    using rnd [of a] a by (simp add: i_def)
  with ua have "0 \<le> i" by linarith
  then have lines: "snd (pnlLines rnd c f) = p"
    by (simp add: pnlLines_def Let_def p_def d_def b_def i_def a_def)
  have bf: "\<bar>b - f\<bar> \<le> u * a"
    using ei by (simp add: b_def a_def)
  then have babs: "\<bar>b\<bar> \<le> f + u * a"
    using f by linarith
  have "\<bar>d - b\<bar> \<le> u * \<bar>b\<bar>"
    unfolding d_def by (rule rnd)
  also have "u * \<bar>b\<bar> \<le> u * (f + u * a)"
    using babs u by (intro mult_left_mono)
  finally have ed: "\<bar>d - b\<bar> \<le> u * (f + u * a)" .
  have "u * (u * a) \<le> u * a"
    using ua(2) u by (rule mult_left_le_one_le)
  with ua(1) have uua: "u * (u * a) \<le> a" by linarith
  have uua0: "0 \<le> u * (u * a)"
    using u(1) ua(2) by (rule mult_nonneg_nonneg)
  have "u * (f + u * a) = u * f + u * (u * a)"
    by (rule distrib_left)
  with ed uf uua have ed': "\<bar>d - b\<bar> \<le> f + a"
    by linarith
  have sabs: "\<bar>d + f\<bar> \<le> 3 * f + 2 * a"
    using ed' babs ua f by linarith
  have "\<bar>p - (d + f)\<bar> \<le> u * \<bar>d + f\<bar>"
    unfolding p_def by (rule rnd)
  also have "u * \<bar>d + f\<bar> \<le> u * (3 * f + 2 * a)"
    using sabs u by (intro mult_left_mono)
  finally have ep: "\<bar>p - (d + f)\<bar> \<le> u * (3 * f + 2 * a)" .
  have "\<bar>p - 2 * f\<bar> \<le> \<bar>p - (d + f)\<bar> + \<bar>d - b\<bar> + \<bar>b - f\<bar>"
    by linarith
  also have "\<dots> \<le> u * (3 * f + 2 * a) + u * (f + u * a) + u * a"
    using ep ed bf by linarith
  also have "\<dots> = 4 * (u * f) + 3 * (u * a) + u * (u * a)"
    by (simp add: algebra_simps)
  also have "\<dots> \<le> 4 * (u * f) + 4 * (u * a)"
    using \<open>u * (u * a) \<le> u * a\<close> by linarith
  also have "\<dots> = 4 * u * c"
    by (simp add: a_def algebra_simps)
  finally show ?thesis
    by (simp add: lines)
qed

subsection \<open>A value of 45300 and fees of 0.1 in binary64\<close>

text \<open>The double nearest to 0.1 is \<open>3602879701896397 / 2 ^ 55\<close>; the double nearest
  to the difference of 45300 and it is \<open>6225970848386253 / 2 ^ 37\<close> (45299.9 as the
  source prints it); the rest of the three lines follows.\<close>

lemma round64_tenth: "round64 (1 / 10) = 3602879701896397 / 36028797018963968"
  by (subst round64_between [where k = "- 4"]) (simp_all add: round_even_def Let_def)

lemma round64_initial:
  "round64 (45300 - 3602879701896397 / 36028797018963968) = 6225970848386253 / 137438953472"
  by (subst round64_between [where k = 15]) (simp_all add: round_even_def Let_def)

lemma round64_difference:
  "round64 (45300 - 6225970848386253 / 137438953472) = 13743895347 / 137438953472"
  by (subst round64_between [where k = "- 4"]) (simp_all add: round_even_def Let_def)

lemma round64_profit:
  "round64 (13743895347 / 137438953472 + 3602879701896397 / 36028797018963968) =
     7205759403740365 / 36028797018963968"
  by (subst round64_between [where k = "- 3"]) (simp_all add: round_even_def Let_def)

lemma pnlLines_binary64_example:
  "pnlLines round64 45300 (3602879701896397 / 36028797018963968) =
     (6225970848386253 / 137438953472, 7205759403740365 / 36028797018963968)"
proof -
  have initial:
    "max 0 (round64 (45300 - 3602879701896397 / 36028797018963968)) =
       6225970848386253 / 137438953472"
    unfolding round64_initial by simp
  show ?thesis
    unfolding pnlLines_def Let_def initial round64_difference round64_profit
    by (rule refl)
qed

text \<open>
  C10 (as amended). When the current value computed for a position is at least the
  fees computed for it (and the fees are not negative), the profit that lines 115 to
  118 derive is twice the fees up to the rounding of binary64: without rounding it is
  \<open>2 * feesUSD\<close> exactly, and as computed on doubles (nothing overflowing) it
  differs from \<open>2 * feesUSD\<close> by at most \<open>currentValueUSD / 2 ^ 51\<close>.
\<close>

theorem pnl_twice_fees_up_to_rounding:
  assumes "0 \<le> f" and "f \<le> c"
  shows "snd (pnlLines id c f) = 2 * f \<and>
         \<bar>snd (pnlLines round64 c f) - 2 * f\<bar> \<le> c / 2 ^ 51"
proof
  show "snd (pnlLines id c f) = 2 * f"
    using assms(2) by (simp add: pnlLines_def Let_def)
next
  have "\<bar>round64 x - x\<bar> \<le> 1 / 2 ^ 53 * \<bar>x\<bar>" for x
    using round64_error [of x] by simp
  then have "\<bar>snd (pnlLines round64 c f) - 2 * f\<bar> \<le> 4 * (1 / 2 ^ 53) * c"
    using assms by (intro pnlLines_error) simp_all
  then show "\<bar>snd (pnlLines round64 c f) - 2 * f\<bar> \<le> c / 2 ^ 51"
    by simp
qed

theorem pnl_twice_fees_up_to_rounding_witness:
  "(0 :: real) \<le> 3602879701896397 / 36028797018963968 \<and>
   (3602879701896397 / 36028797018963968 :: real) \<le> 45300 \<and>
   snd (pnlLines id 45300 (3602879701896397 / 36028797018963968)) =
     2 * (3602879701896397 / 36028797018963968) \<and>
   snd (pnlLines round64 45300 (3602879701896397 / 36028797018963968)) =
     7205759403740365 / 36028797018963968 \<and>
   \<bar>snd (pnlLines round64 45300 (3602879701896397 / 36028797018963968))
      - 2 * (3602879701896397 / 36028797018963968)\<bar> \<le> 45300 / 2 ^ 51"
proof -
  have fees: "(0 :: real) \<le> 3602879701896397 / 36028797018963968"
    "(3602879701896397 / 36028797018963968 :: real) \<le> 45300"
    by simp_all
  from pnl_twice_fees_up_to_rounding [OF fees] fees pnlLines_binary64_example
  show ?thesis by simp
qed

text \<open>The position that \<open>processPosition\<close> builds from \<open>demoRaw\<close> has a value of
  45300 and fees of 0.1. On doubles, with 0.1 the double nearest to it, the three
  lines give an initial value of 45299.9 (the double) and a profit of
  \<open>7205759403740365 / 2 ^ 55\<close>, which the source prints as 0.19999999999854481; twice
  the fees is \<open>7205759403792794 / 2 ^ 55\<close>, printed as 0.2.\<close>

theorem pnl_twice_fees_counterexample:
  "currentValueUSD demoProcessed = Fin 45300 \<and>
   totalFeesUSD demoProcessed = Fin (1 / 10) \<and>
   round64 (1 / 10) = 3602879701896397 / 36028797018963968 \<and>
   (3602879701896397 / 36028797018963968 :: real) \<le> 45300 \<and>
   snd (pnlLines round64 45300 (3602879701896397 / 36028797018963968)) =
     7205759403740365 / 36028797018963968 \<and>
   2 * (3602879701896397 / 36028797018963968 :: real) = 7205759403792794 / 36028797018963968 \<and>
   snd (pnlLines round64 45300 (3602879701896397 / 36028797018963968)) \<noteq>
     2 * (3602879701896397 / 36028797018963968)"
  by (simp add: demoProcessed_values round64_tenth pnlLines_binary64_example)

section \<open>Price range and risk level\<close>

text \<open>
  C7 (as amended). The price range of every position that \<open>processPosition\<close> builds is
  the constant placeholder range from 0.9 to 1.1 (a price of 1.0, ten percent to
  either side), whatever the bins of the position and the bin step of the pool are.
\<close>

theorem price_range_constant:
  assumes "processPosition env rp s = (Inr p, s')"
  shows "priceRangeLower p = Fin (9 / 10) \<and> priceRangeUpper p = Fin (11 / 10)"
proof -
  from assms obtain lbPair ax ay px py tier
    where "p = buildPosition (clock s') rp lbPair ax ay px py tier"
    by (rule processPosition_built)
  then show ?thesis
    by (simp add: buildPosition_range)
qed

theorem price_range_constant_witness:
  "fst (processPosition demoEnv demoRaw (freshEngine 1000040)) = Inr demoProcessed \<and>
   priceRangeLower demoProcessed = Fin (9 / 10) \<and>
   priceRangeUpper demoProcessed = Fin (11 / 10)"
proof -
  obtain s' where run: "processPosition demoEnv demoRaw (freshEngine 1000040) = (Inr demoProcessed, s')"
    using demo_process by (cases "processPosition demoEnv demoRaw (freshEngine 1000040)") simp
  from price_range_constant [OF run] show ?thesis
    by (simp add: demo_process)
qed

text \<open>Two positions whose bins differ, in pools whose bin steps differ, get the same
  range: the range does not depend on them.\<close>

theorem price_range_counterexample:
  "raw_bins demoRaw \<noteq> raw_bins wideRaw \<and>
   binStep demoPair \<noteq> binStep widePair \<and>
   getPriceRange demoRaw demoPair = getPriceRange wideRaw widePair"
  by (simp add: demoRaw_def wideRaw_def demoPair_def widePair_def getPriceRange_def)

lemma range_shrinks:
  fixes l u l' u' :: real
  assumes "0 < l" "l \<le> l'" "l' \<le> u'" "u' \<le> u"
  shows "(u' - l') / l' \<le> (u - l) / l"
proof -
  have "u' / l' \<le> u / l"
    using assms by (intro frac_le) auto
  moreover have "(u' - l') / l' = u' / l' - 1" "(u - l) / l = u / l - 1"
    using assms by (simp_all add: diff_divide_distrib)
  ultimately show ?thesis by simp
qed

lemma lower_distance_shrinks:
  fixes l l' c :: real
  assumes "0 < l" "l \<le> l'" "l' \<le> c"
  shows "(c - l') / l' \<le> (c - l) / l"
  using assms by (intro frac_le) auto

lemma upper_distance_shrinks:
  fixes u u' c :: real
  assumes "0 < c" "c \<le> u'" "u' \<le> u"
  shows "(u' - c) / u' \<le> (u - c) / u"
proof -
  have "c / u \<le> c / u'"
    using assms by (intro frac_le) auto
  moreover have "(u' - c) / u' = 1 - c / u'" "(u - c) / u = 1 - c / u"
    using assms by (simp_all add: diff_divide_distrib)
  ultimately show ?thesis by simp
qed

lemma classify_mono:
  fixes r m r' m' a b d :: real
  assumes "r' \<le> r" "m' \<le> m"
  shows "severity (if r < a \<and> m < b then High else if r < a \<or> m < d then Medium else Low)
       \<le> severity (if r' < a \<and> m' < b then High else if r' < a \<or> m' < d then Medium else Low)"
  using assms by auto

lemma risk_at_zero_lower:
  assumes "0 < c" "c \<le> u"
  shows "calculateRiskLevel (Fin 0) (Fin u) (Fin c) =
           (if (u - c) / u < 5 / 100 then Medium else Low)"
  using assms by (simp add: calculateRiskLevel_def inf_of_sign_def Let_def)

lemma risk_at_zero_lower_current:
  assumes "0 \<le> u"
  shows "calculateRiskLevel (Fin 0) (Fin u) (Fin 0) = Low"
  using assms by (simp add: calculateRiskLevel_def inf_of_sign_def Let_def)

lemma classify_not_Low:
  fixes r m a b d :: real
  assumes "m < d"
  shows "(if r < a \<and> m < b then High else if r < a \<or> m < d then Medium else Low) \<noteq> Low"
  using assms by simp

text \<open>
  C9. For prices with \<open>0 \<le> lower \<le> current \<le> upper\<close>, raising the lower bound
  towards the current price and lowering the upper bound towards it never lowers the
  severity of the risk level, in the order Low, Medium, High. (With a lower bound of
  zero the divisions by it give infinities or NaN, and the level is Medium or Low
  by the distance to the upper bound alone.)
\<close>

theorem risk_monotone_shrinking:
  assumes "0 \<le> l" "l \<le> l'" "l' \<le> c" "c \<le> u'" "u' \<le> u"
  shows "severity (calculateRiskLevel (Fin l) (Fin u) (Fin c))
       \<le> severity (calculateRiskLevel (Fin l') (Fin u') (Fin c))"
proof (cases "0 < l")
  case True
  have pos: "l \<noteq> 0" "u \<noteq> 0" "l' \<noteq> 0" "u' \<noteq> 0" "0 < c"
    using assms True by auto
  have r: "(u' - l') / l' \<le> (u - l) / l"
    using assms True by (intro range_shrinks) auto
  have dl: "(c - l') / l' \<le> (c - l) / l"
    using assms True by (intro lower_distance_shrinks) auto
  have du: "(u' - c) / u' \<le> (u - c) / u"
    using assms pos by (intro upper_distance_shrinks) auto
  have m: "min ((c - l') / l') ((u' - c) / u') \<le> min ((c - l) / l) ((u - c) / u)"
    using dl du by (simp add: min_le_iff_disj)
  show ?thesis
    unfolding calculateRiskLevel_Fin [OF pos(1) pos(2)] calculateRiskLevel_Fin [OF pos(3) pos(4)]
    by (rule classify_mono [OF r m])
next
  case False
  with assms(1) have l: "l = 0" by simp
  show ?thesis
  proof (cases "0 < c")
    case False
    with assms l have "c = 0" "0 \<le> u" by simp_all
    then show ?thesis
      by (simp add: l risk_at_zero_lower_current)
  next
    case c: True
    with assms have u: "0 < u'" "0 < u" "c \<le> u" by auto
    have du: "(u' - c) / u' \<le> (u - c) / u"
      using assms c by (intro upper_distance_shrinks) auto
    show ?thesis
    proof (cases "(u - c) / u < 5 / 100")
      case False
      with c u show ?thesis
        by (simp add: l risk_at_zero_lower)
    next
      case near: True
      have near': "(u' - c) / u' < 5 / 100"
        using du near by (rule le_less_trans)
      show ?thesis
      proof (cases "l' = 0")
        case True
        with c u assms near near' show ?thesis
          by (simp add: l risk_at_zero_lower)
      next
        case False
        have "min ((c - l') / l') ((u' - c) / u') < 5 / 100"
          using near' by (rule min.strict_coboundedI2)
        then have "calculateRiskLevel (Fin l') (Fin u') (Fin c) \<noteq> Low"
          unfolding calculateRiskLevel_Fin [OF False less_imp_neq [OF u(1), symmetric]]
          by (rule classify_not_Low)
        then have "1 \<le> severity (calculateRiskLevel (Fin l') (Fin u') (Fin c))"
          by (cases "calculateRiskLevel (Fin l') (Fin u') (Fin c)") simp_all
        with c u near show ?thesis
          by (simp add: l risk_at_zero_lower)
      qed
    qed
  qed
qed

theorem risk_monotone_shrinking_witness:
  "(0 :: real) \<le> 95 \<and> (95 :: real) \<le> 98 \<and> (98 :: real) \<le> 100 \<and> (100 :: real) \<le> 102 \<and>
   (102 :: real) \<le> 105 \<and>
   calculateRiskLevel (Fin 95) (Fin 105) (Fin 100) = Medium \<and>
   calculateRiskLevel (Fin 98) (Fin 102) (Fin 100) = High \<and>
   severity (calculateRiskLevel (Fin 95) (Fin 105) (Fin 100))
     \<le> severity (calculateRiskLevel (Fin 98) (Fin 102) (Fin 100))"
  using risk_monotone_shrinking [of 95 98 100 102 105]
  by (simp add: calculateRiskLevel_Fin)

lemma calculateRiskLevel_thresholds:
  "(calculateRiskLevel lower upper current = High) = isHigh lower upper current"
  "(calculateRiskLevel lower upper current = Medium) = isMedium lower upper current"
  "(calculateRiskLevel lower upper current = Low) =
     (\<not> isHigh lower upper current \<and> \<not> isMedium lower upper current)"
  by (auto simp: calculateRiskLevel_def isHigh_def isMedium_def rangePct_def minDist_def Let_def)

lemma processed_follows_thresholds:
  assumes "processPosition env rp s = (Inr p, s')"
  shows "riskLevel p = calculateRiskLevel (priceRangeLower p) (priceRangeUpper p) (currentPrice p)"
proof -
  from assms obtain lbPair ax ay px py tier
    where "p = buildPosition (clock s') rp lbPair ax ay px py tier"
    by (rule processPosition_built)
  then show ?thesis
    by (simp add: buildPosition_risk)
qed

text \<open>
  C5 (as amended). For every position that \<open>getUserPositions\<close> returns from
  processing the raw positions of the ledger (a valid key, a ledger that returns at
  least one raw position), the risk level is \<open>calculateRiskLevel\<close> of the triple
  (\<open>priceRangeLower\<close>, \<open>priceRangeUpper\<close>, \<open>currentPrice\<close>) and follows the thresholds:
  High iff \<open>rangePct < 0.05\<close> and \<open>minDist < 0.02\<close>, Medium iff not High and
  (\<open>rangePct < 0.05\<close> or \<open>minDist < 0.05\<close>), Low otherwise; so two such positions with
  the same triple have the same level. The demonstration positions carry fixed
  levels that are not computed from their triples.
\<close>

theorem risk_level_of_processed:
  assumes "validKey env w"
    and "fst (getPositionsByUser env w (clock s)) = LedgerReturns rps"
    and "rps \<noteq> []"
    and "fst (getUserPositions env w s) = Inr ps"
    and "p \<in> set ps"
  shows "riskLevel p = calculateRiskLevel (priceRangeLower p) (priceRangeUpper p) (currentPrice p) \<and>
         follows_thresholds p"
proof -
  from getUserPositions_processed [OF assms]
  obtain rp s0 s1 where "processPosition env rp s0 = (Inr p, s1)"
    by blast
  then have "riskLevel p =
      calculateRiskLevel (priceRangeLower p) (priceRangeUpper p) (currentPrice p)"
    by (rule processed_follows_thresholds)
  then show ?thesis
    unfolding follows_thresholds_def
    using calculateRiskLevel_thresholds [of "priceRangeLower p" "priceRangeUpper p" "currentPrice p"]
    by simp
qed

theorem risk_level_of_processed_witness:
  "validKey demoEnv ''wallet'' \<and>
   fst (getPositionsByUser demoEnv ''wallet'' (clock (freshEngine 1000000))) = LedgerReturns [demoRaw] \<and>
   [demoRaw] \<noteq> [] \<and>
   fst (getUserPositions demoEnv ''wallet'' (freshEngine 1000000)) = Inr [demoProcessed] \<and>
   demoProcessed \<in> set [demoProcessed] \<and>
   riskLevel demoProcessed = Low \<and>
   calculateRiskLevel (priceRangeLower demoProcessed) (priceRangeUpper demoProcessed)
     (currentPrice demoProcessed) = Low \<and>
   follows_thresholds demoProcessed"
proof -
  have key: "validKey demoEnv ''wallet''"
    and ledger: "fst (getPositionsByUser demoEnv ''wallet'' (clock (freshEngine 1000000))) =
      LedgerReturns [demoRaw]"
    by (simp_all add: collaboratorsWith_def demoEnv_def)
  have "[demoRaw] \<noteq> []" and "demoProcessed \<in> set [demoProcessed]"
    by simp_all
  from risk_level_of_processed [OF key ledger this(1) demo_run this(2)] key ledger
  show ?thesis
    by (simp add: demo_run demoProcessed_values)
qed

text \<open>The demonstration set that an empty ledger answer falls back to: its levels
  are Low, Low and High, where the thresholds give Medium, High and Medium for the
  three triples.\<close>

theorem risk_level_counterexample:
  "fst (getUserPositions emptyEnv ''wallet'' (freshEngine 1000000)) =
     Inr (getMockPositions 1000040) \<and>
   map riskLevel (getMockPositions 1000040) = [Low, Low, High] \<and>
   map (\<lambda>p. calculateRiskLevel (priceRangeLower p) (priceRangeUpper p) (currentPrice p))
     (getMockPositions 1000040) = [Medium, High, Medium] \<and>
   map follows_thresholds (getMockPositions 1000040) = [False, False, False]"
proof -
  have run: "fst (getUserPositions emptyEnv ''wallet'' (freshEngine 1000000)) =
      Inr (getMockPositions 1000040)"
    by (simp add: getUserPositions_def tryUserPositions_def input_defs freshEngine_def advance_def)
  have levels: "map riskLevel (getMockPositions 1000040) = [Low, Low, High]"
    by (simp add: getMockPositions_def)
  have computed:
    "map (\<lambda>p. calculateRiskLevel (priceRangeLower p) (priceRangeUpper p) (currentPrice p))
       (getMockPositions 1000040) = [Medium, High, Medium]"
    by (simp add: getMockPositions_def calculateRiskLevel_Fin)
  have "map follows_thresholds (getMockPositions 1000040) = [False, False, False]"
    by (simp add: getMockPositions_def follows_thresholds_def isHigh_def isMedium_def
          rangePct_def minDist_def)
  with run levels computed show ?thesis by simp
qed

section \<open>The fallback to the demonstration set\<close>

lemma mock_documented:
  "map documented (getMockPositions now) =
     [(''mock_pos_1'', ''SOL-USDC'', Fin 5250, Fin 375, Low, True),
      (''mock_pos_2'', ''USDC-USDT'', Fin 2480, Fin 25, Low, True),
      (''mock_pos_3'', ''SOL-USDT'', Fin 2850, Fin (- 90), High, False)]"
  by (simp add: getMockPositions_def documented_def)

lemma fallback_on_empty_or_error:
  assumes "validKey env w"
    and "getPositionsByUser env w (clock s) = (reply, d)"
    and "reply = LedgerThrows \<or> reply = LedgerReturns []"
  shows "getUserPositions env w s = (Inr (getMockPositions (clock s + int d)), advance d s)"
  using assms
  by (auto simp: getUserPositions_def tryUserPositions_def advance_def)

text \<open>
  C3. When the wallet address is a valid key and the ledger fetch throws or returns
  no raw position, \<open>getUserPositions\<close> returns the demonstration set, which is exactly
  the three documented positions, in this order: \<open>mock_pos_1\<close> (SOL-USDC, value 5250,
  profit 375, Low, in range), \<open>mock_pos_2\<close> (USDC-USDT, value 2480, profit 25, Low, in
  range) and \<open>mock_pos_3\<close> (SOL-USDT, value 2850, loss 90, High, out of range).
\<close>

theorem demo_positions_on_empty_or_error:
  assumes "validKey env w"
    and "fst (getPositionsByUser env w (clock s)) = LedgerThrows \<or>
         fst (getPositionsByUser env w (clock s)) = LedgerReturns []"
  shows "\<exists>now. fst (getUserPositions env w s) = Inr (getMockPositions now) \<and>
           map documented (getMockPositions now) =
             [(''mock_pos_1'', ''SOL-USDC'', Fin 5250, Fin 375, Low, True),
              (''mock_pos_2'', ''USDC-USDT'', Fin 2480, Fin 25, Low, True),
              (''mock_pos_3'', ''SOL-USDT'', Fin 2850, Fin (- 90), High, False)]"
proof -
  obtain reply d where reply: "getPositionsByUser env w (clock s) = (reply, d)"
    by (cases "getPositionsByUser env w (clock s)")
  with assms(2) have "reply = LedgerThrows \<or> reply = LedgerReturns []"
    by simp
  from fallback_on_empty_or_error [OF assms(1) reply this]
  have "fst (getUserPositions env w s) = Inr (getMockPositions (clock s + int d))"
    by simp
  with mock_documented show ?thesis
    by blast
qed

theorem demo_positions_on_empty_or_error_witness:
  "validKey downEnv ''wallet'' \<and>
   fst (getPositionsByUser downEnv ''wallet'' (clock (freshEngine 1000000))) = LedgerThrows \<and>
   validKey emptyEnv ''wallet'' \<and>
   fst (getPositionsByUser emptyEnv ''wallet'' (clock (freshEngine 1000000))) = LedgerReturns [] \<and>
   (\<exists>now. fst (getUserPositions downEnv ''wallet'' (freshEngine 1000000)) = Inr (getMockPositions now) \<and>
      map documented (getMockPositions now) =
        [(''mock_pos_1'', ''SOL-USDC'', Fin 5250, Fin 375, Low, True),
         (''mock_pos_2'', ''USDC-USDT'', Fin 2480, Fin 25, Low, True),
         (''mock_pos_3'', ''SOL-USDT'', Fin 2850, Fin (- 90), High, False)]) \<and>
   (\<exists>now. fst (getUserPositions emptyEnv ''wallet'' (freshEngine 1000000)) = Inr (getMockPositions now) \<and>
      map documented (getMockPositions now) =
        [(''mock_pos_1'', ''SOL-USDC'', Fin 5250, Fin 375, Low, True),
         (''mock_pos_2'', ''USDC-USDT'', Fin 2480, Fin 25, Low, True),
         (''mock_pos_3'', ''SOL-USDT'', Fin 2850, Fin (- 90), High, False)])"
proof -
  have down: "validKey downEnv ''wallet''"
    "fst (getPositionsByUser downEnv ''wallet'' (clock (freshEngine 1000000))) = LedgerThrows"
    by (simp_all add: input_defs)
  have empty: "validKey emptyEnv ''wallet''"
    "fst (getPositionsByUser emptyEnv ''wallet'' (clock (freshEngine 1000000))) = LedgerReturns []"
    by (simp_all add: input_defs)
  from demo_positions_on_empty_or_error [OF down(1) disjI1 [OF down(2)]]
       demo_positions_on_empty_or_error [OF empty(1) disjI2 [OF empty(2)]]
       down empty
  show ?thesis by blast
qed

text \<open>
  C6 (as amended). When the wallet address is not a valid key, the error of the
  \<open>PublicKey\<close> constructor is thrown inside the \<open>try\<close> block of \<open>getUserPositions\<close>
  and caught by its \<open>catch\<close>: the call resolves with the demonstration set, makes no
  call to the ledger and leaves the state as it was.
\<close>

theorem malformed_address_absorbed:
  assumes "\<not> validKey env w"
  shows "getUserPositions env w s = (Inr (getMockPositions (clock s)), s)"
  using assms by (simp add: getUserPositions_def tryUserPositions_def)

theorem malformed_address_absorbed_witness:
  "\<not> validKey demoEnv ''not a base58 key'' \<and>
   getUserPositions demoEnv ''not a base58 key'' (freshEngine 1000000) =
     (Inr (getMockPositions 1000000), freshEngine 1000000)"
proof -
  have bad: "\<not> validKey demoEnv ''not a base58 key''"
    by (simp add: input_defs)
  from malformed_address_absorbed [OF bad, of "freshEngine 1000000"] bad
  show ?thesis by (simp add: freshEngine_simps)
qed

text \<open>The call with a malformed address does not reject: its result is not an
  error.\<close>

theorem malformed_address_counterexample:
  "\<not> validKey demoEnv ''not a base58 key'' \<and>
   \<not> isl (fst (getUserPositions demoEnv ''not a base58 key'' (freshEngine 1000000)))"
  by (simp add: getUserPositions_def tryUserPositions_def input_defs)

section \<open>Properties of the price cache\<close>

lemma queryOracle_log:
  assumes "queryOracle env mint s = (r, s')"
  shows "oracleLog s' = oracleLog s @ [mint]"
  using assms
  by (auto simp: queryOracle_def advance_def Let_def
           split: prod.splits fetch_reply.splits http_body.splits sum.splits if_splits)

lemma queryOracle_rejects:
  assumes "fetch env mint (length (oracleLog s)) = (reply, d)" and "rejects reply"
  shows "\<exists>e. queryOracle env mint s = (Inl e, (advance d s)\<lparr>oracleLog := oracleLog s @ [mint]\<rparr>)"
  using assms
  by (cases reply)
     (auto simp: queryOracle_def rejects_def extract_price_def Let_def
           split: http_body.splits if_splits)

lemma queryOracle_accepts:
  assumes "fetch env mint (length (oracleLog s)) = (reply, d)" and "\<not> rejects reply"
  shows "\<exists>p. queryOracle env mint s =
           (Inr p, (advance d s)\<lparr>oracleLog := oracleLog s @ [mint],
                                 priceCache := (priceCache s)
                                   (mint \<mapsto> \<lparr>price = p, timestamp = clock s + int d\<rparr>)\<rparr>)"
proof (cases reply)
  case NetworkError
  with assms(2) show ?thesis by (simp add: rejects_def)
next
  case (Response ok status body)
  with assms(2) obtain data where body: "ok" "body = Json data" "data \<noteq> JNull"
    by (cases body) (auto simp: rejects_def split: if_splits)
  then obtain m where "get_member data ''data'' = Inr m"
    by (cases data) auto
  with assms(1) Response body show ?thesis
    by (simp add: queryOracle_def extract_price_def advance_def)
qed


text \<open>An entry that is missing or stale stays so as time goes on.\<close>

lemma cacheHit_stays_none:
  assumes "cacheHit s mint = None"
    and "priceCache s' mint = priceCache s mint" and "clock s \<le> clock s'"
  shows "cacheHit s' mint = None"
  using assms by (auto simp: cacheHit_def split: option.splits if_splits)

text \<open>A call adds at most one query to the log.\<close>

lemma getTokenPrice_log:
  assumes "getTokenPrice env mint s = (p, s')"
  shows "oracleLog s' = oracleLog s \<or> oracleLog s' = oracleLog s @ [mint]"
proof (cases "cacheHit s mint")
  case None
  obtain r s1 where q: "queryOracle env mint s = (r, s1)"
    by (cases "queryOracle env mint s")
  with None assms have "s' = s1"
    by (cases r) (simp_all add: getTokenPrice_def)
  with queryOracle_log [OF q] show ?thesis by simp
next
  case (Some cached)
  with assms show ?thesis by (simp add: getTokenPrice_def)
qed

lemma getTokenPrice_miss_log:
  assumes "cacheHit s mint = None"
  shows "oracleLog (snd (getTokenPrice env mint s)) = oracleLog s @ [mint]"
proof -
  obtain r s1 where q: "queryOracle env mint s = (r, s1)"
    by (cases "queryOracle env mint s")
  with assms have "snd (getTokenPrice env mint s) = s1"
    by (cases r) (simp_all add: getTokenPrice_def)
  with queryOracle_log [OF q] show ?thesis by simp
qed


lemma down_first_call:
  "getTokenPrice downEnv SOL (freshEngine 1000000) =
     (Fin 1, \<lparr>priceCache = (\<lambda>mint. None), clock = 1000120, oracleLog = [SOL]\<rparr>)"
  by (simp add: price_defs input_defs freshEngine_def Let_def)


lemma demo_first_call:
  "getTokenPrice demoEnv SOL (freshEngine 1000000) =
     (Fin 150, \<lparr>priceCache = (\<lambda>mint. None)(SOL \<mapsto> \<lparr>price = Fin 150, timestamp = 1000120\<rparr>),
                clock = 1000120, oracleLog = [SOL]\<rparr>)"
  by (simp add: price_defs input_defs freshEngine_def Let_def)



subsection \<open>Two calls for one id\<close>

lemma getTokenPrice_phases:
  "getTokenPrice env mint s =
     (case beginTokenPrice env mint s of
        (Served p, s') \<Rightarrow> (p, s')
      | (Awaiting reply d, s') \<Rightarrow> completeTokenPrice mint reply (advance d s'))"
  by (auto simp: getTokenPrice_def beginTokenPrice_def completeTokenPrice_def queryOracle_def
        advance_def Let_def
      split: option.splits prod.splits fetch_reply.splits http_body.splits sum.splits)

lemma completeTokenPrice_log:
  "oracleLog (snd (completeTokenPrice mint reply s)) = oracleLog s"
  by (simp add: completeTokenPrice_def
      split: fetch_reply.splits http_body.splits sum.splits)

lemma beginTokenPrice_miss:
  assumes "cacheHit s mint = None"
  shows "snd (beginTokenPrice env mint s) = s\<lparr>oracleLog := oracleLog s @ [mint]\<rparr>"
  using assms by (simp add: beginTokenPrice_def split: prod.splits)

lemma one_query_sequential:
  assumes "getTokenPrice env mint s = (p1, s1)"
    and "cacheHit s mint \<noteq> None \<or>
         \<not> rejects (fst (fetch env mint (length (oracleLog s))))"
    and "clock s1 + int gap - clock s < CACHE_TTL"
    and "getTokenPrice env mint (advance gap s1) = (p2, s2)"
  shows "length (oracleLog s2) \<le> length (oracleLog s) + 1"
proof (cases "cacheHit s mint")
  case (Some cached)
  with assms(1) have "s1 = s"
    by (simp add: getTokenPrice_def)
  with getTokenPrice_log [OF assms(4)] show ?thesis
    by (auto simp: advance_def)
next
  case None
  obtain reply d where reply: "fetch env mint (length (oracleLog s)) = (reply, d)"
    by (cases "fetch env mint (length (oracleLog s))")
  with None assms(2) have "\<not> rejects reply"
    by simp
  from queryOracle_accepts [OF reply this] None assms(1)
  have s1: "s1 = (advance d s)\<lparr>oracleLog := oracleLog s @ [mint],
                priceCache := (priceCache s)
                  (mint \<mapsto> \<lparr>price = p1, timestamp = clock s + int d\<rparr>)\<rparr>"
    by (auto simp: getTokenPrice_def)
  from assms(3) have "int gap < CACHE_TTL"
    by (simp add: s1 advance_def)
  then have "cacheHit (advance gap s1) mint = Some \<lparr>price = p1, timestamp = clock s + int d\<rparr>"
    by (simp add: s1 cacheHit_def advance_def)
  with assms(4) have "s2 = advance gap s1"
    by (simp add: getTokenPrice_def)
  then show ?thesis
    by (simp add: s1 advance_def)
qed

lemma second_query_when_overlapping:
  assumes "cacheHit s mint = None"
  shows "oracleLog (snd (beginTokenPrice env mint
           (advance gap (snd (beginTokenPrice env mint s))))) = oracleLog s @ [mint, mint]"
proof -
  let ?s1 = "snd (beginTokenPrice env mint s)"
  have s1: "?s1 = s\<lparr>oracleLog := oracleLog s @ [mint]\<rparr>"
    using assms by (rule beginTokenPrice_miss)
  have "cacheHit (advance gap ?s1) mint = None"
    using assms by (rule cacheHit_stays_none) (simp_all add: s1 advance_def)
  from beginTokenPrice_miss [OF this] show ?thesis
    by (simp add: s1 advance_def)
qed

text \<open>Two overlapping calls with a healthy oracle: the first starts at 1000000, the
  second 50 ms later while the first is awaiting its reply; the replies arrive at
  1000120 and 1000170. Both calls query the oracle and both return 150.\<close>

lemma overlapping_calls_example:
  "(let (ra, sa) = beginTokenPrice demoEnv SOL (freshEngine 1000000);
        (rb, sb) = beginTokenPrice demoEnv SOL (advance 50 sa);
        (pa, sc) = completeTokenPrice SOL (Response True 200 (Json (quote SOL 150))) (advance 70 sb);
        (pb, sd) = completeTokenPrice SOL (Response True 200 (Json (quote SOL 150))) (advance 50 sc)
    in (ra, rb, pa, pb, oracleLog sd, clock sd)) =
   (Awaiting (Response True 200 (Json (quote SOL 150))) 120,
    Awaiting (Response True 200 (Json (quote SOL 150))) 120,
    Fin 150, Fin 150, [SOL, SOL], 1000170)"
  by (simp add: beginTokenPrice_def completeTokenPrice_def cacheHit_def extract_price_def
        advance_def collaboratorsWith_def demoEnv_def freshEngine_def quote_def SOL_def)

lemma second_query_after_failure:
  assumes "cacheHit s mint = None"
    and "rejects (fst (fetch env mint (length (oracleLog s))))"
  shows "oracleLog (snd (getTokenPrice env mint
           (advance gap (snd (getTokenPrice env mint s))))) = oracleLog s @ [mint, mint]"
proof -
  obtain reply d where reply: "fetch env mint (length (oracleLog s)) = (reply, d)"
    by (cases "fetch env mint (length (oracleLog s))")
  with assms(2) have "rejects reply" by simp
  from queryOracle_rejects [OF reply this] assms(1)
  have s1: "snd (getTokenPrice env mint s) = (advance d s)\<lparr>oracleLog := oracleLog s @ [mint]\<rparr>"
    by (auto simp: getTokenPrice_def)
  have "cacheHit (advance gap (snd (getTokenPrice env mint s))) mint = None"
    using assms(1) by (rule cacheHit_stays_none) (simp_all add: s1 advance_def)
  from getTokenPrice_miss_log [OF this] show ?thesis
    by (simp add: s1 advance_def)
qed

text \<open>
  C8 (as amended). Two calls of \<open>getTokenPrice\<close> for one id make at most one oracle
  query when the second call starts after the first has returned and less than 30
  seconds after the first started, and the first call was served from the cache or
  its query did not fail by throwing. The second call queries the oracle again when
  it starts while the first is still awaiting the oracle after a cache miss (the
  cache is written only when the answer has arrived), and when the query of the
  first call throws (nothing is cached).
\<close>

theorem one_query_within_ttl:
  "(getTokenPrice env mint s = (p1, s1) \<and>
    (cacheHit s mint \<noteq> None \<or> \<not> rejects (fst (fetch env mint (length (oracleLog s))))) \<and>
    clock s1 + int gap - clock s < CACHE_TTL \<and>
    getTokenPrice env mint (advance gap s1) = (p2, s2)
    \<longrightarrow> length (oracleLog s2) \<le> length (oracleLog s) + 1) \<and>
   (cacheHit s mint = None \<and> gap < snd (fetch env mint (length (oracleLog s)))
    \<longrightarrow> oracleLog (snd (beginTokenPrice env mint
          (advance gap (snd (beginTokenPrice env mint s))))) = oracleLog s @ [mint, mint]) \<and>
   (cacheHit s mint = None \<and> rejects (fst (fetch env mint (length (oracleLog s))))
    \<longrightarrow> oracleLog (snd (getTokenPrice env mint
          (advance gap (snd (getTokenPrice env mint s))))) = oracleLog s @ [mint, mint])"
  using one_query_sequential [of env mint s p1 s1 gap p2 s2]
        second_query_when_overlapping [of s mint env gap]
        second_query_after_failure [of s mint env gap]
  by blast

theorem one_query_within_ttl_witness:
  "\<not> rejects (fst (fetch demoEnv SOL (length (oracleLog (freshEngine 1000000))))) \<and>
   clock (snd (getTokenPrice demoEnv SOL (freshEngine 1000000))) + int 29000
     - clock (freshEngine 1000000) < CACHE_TTL \<and>
   oracleLog (snd (getTokenPrice demoEnv SOL
       (advance 29000 (snd (getTokenPrice demoEnv SOL (freshEngine 1000000)))))) = [SOL] \<and>
   length (oracleLog (snd (getTokenPrice demoEnv SOL
       (advance 29000 (snd (getTokenPrice demoEnv SOL (freshEngine 1000000)))))))
     \<le> length (oracleLog (freshEngine 1000000)) + 1 \<and>
   cacheHit (freshEngine 1000000) SOL = None \<and>
   (50 :: nat) < snd (fetch demoEnv SOL (length (oracleLog (freshEngine 1000000)))) \<and>
   oracleLog (snd (beginTokenPrice demoEnv SOL
       (advance 50 (snd (beginTokenPrice demoEnv SOL (freshEngine 1000000)))))) = [SOL, SOL] \<and>
   rejects (fst (fetch downEnv SOL (length (oracleLog (freshEngine 1000000))))) \<and>
   oracleLog (snd (getTokenPrice downEnv SOL
       (advance 1000 (snd (getTokenPrice downEnv SOL (freshEngine 1000000)))))) = [SOL, SOL]"
proof -
  let ?s = "freshEngine 1000000"
  let ?s1 = "snd (getTokenPrice demoEnv SOL ?s)"
  have ok: "\<not> rejects (fst (fetch demoEnv SOL (length (oracleLog ?s))))"
    by (simp add: rejects_def input_defs freshEngine_simps)
  have soon: "clock ?s1 + int 29000 - clock ?s < CACHE_TTL"
    by (simp add: demo_first_call CACHE_TTL_def freshEngine_simps)
  have first: "getTokenPrice demoEnv SOL ?s = (Fin 150, ?s1)"
    by (simp add: demo_first_call)
  have second: "getTokenPrice demoEnv SOL (advance 29000 ?s1) =
      (fst (getTokenPrice demoEnv SOL (advance 29000 ?s1)),
       snd (getTokenPrice demoEnv SOL (advance 29000 ?s1)))"
    by simp
  have log: "oracleLog (snd (getTokenPrice demoEnv SOL (advance 29000 ?s1))) = [SOL]"
    by (simp add: demo_first_call) (simp add: price_defs)
  have miss: "cacheHit ?s SOL = None"
    by (simp add: cacheHit_def freshEngine_simps)
  have pending: "(50 :: nat) < snd (fetch demoEnv SOL (length (oracleLog ?s)))"
    by (simp add: input_defs freshEngine_simps)
  have down: "rejects (fst (fetch downEnv SOL (length (oracleLog ?s))))"
    by (simp add: rejects_def input_defs freshEngine_simps)
  have empty: "oracleLog ?s = []"
    by (simp add: freshEngine_simps)
  from one_query_within_ttl [of demoEnv SOL ?s "Fin 150" ?s1 29000
         "fst (getTokenPrice demoEnv SOL (advance 29000 ?s1))"
         "snd (getTokenPrice demoEnv SOL (advance 29000 ?s1))"]
       ok soon first second
  have a: "length (oracleLog (snd (getTokenPrice demoEnv SOL (advance 29000 ?s1))))
      \<le> length (oracleLog ?s) + 1"
    by blast
  from one_query_within_ttl [of demoEnv SOL ?s _ _ 50] miss pending
  have b: "oracleLog (snd (beginTokenPrice demoEnv SOL
      (advance 50 (snd (beginTokenPrice demoEnv SOL ?s))))) = oracleLog ?s @ [SOL, SOL]"
    by blast
  from one_query_within_ttl [of downEnv SOL ?s _ _ 1000] miss down
  have c: "oracleLog (snd (getTokenPrice downEnv SOL
      (advance 1000 (snd (getTokenPrice downEnv SOL ?s))))) = oracleLog ?s @ [SOL, SOL]"
    by blast
  from ok soon log a miss pending b [unfolded empty] down c [unfolded empty]
  show ?thesis by simp
qed

text \<open>The oracle answers 503 each time: the second call, one second after the first
  has returned, queries again, so the two calls make two queries.\<close>

theorem one_query_counterexample:
  "fst (fetch downEnv SOL 0) = Response False 503 NotJson \<and>
   clock (advance 1000 (snd (getTokenPrice downEnv SOL (freshEngine 1000000))))
     - clock (freshEngine 1000000) < CACHE_TTL \<and>
   oracleLog (freshEngine 1000000) = [] \<and>
   oracleLog (snd (getTokenPrice downEnv SOL
       (advance 1000 (snd (getTokenPrice downEnv SOL (freshEngine 1000000)))))) = [SOL, SOL]"
  by (simp add: down_first_call freshEngine_simps)
     (simp add: price_defs input_defs)

section \<open>Portfolio risk score\<close>

lemma foldl_jadd_Fin: "foldl jadd (Fin a) (map Fin xs) = Fin (a + sum_list xs)"
  by (induction xs arbitrary: a) (simp_all add: add.assoc)

lemma jsum_Fin: "jsum (map Fin xs) = Fin (sum_list xs)"
  by (simp add: jsum_def foldl_jadd_Fin)

lemma foldl_jmax_Fin: "\<exists>m \<in> set (a # xs). foldl jmax (Fin a) (map Fin xs) = Fin m"
proof (induction xs arbitrary: a)
  case Nil
  show ?case by simp
next
  case (Cons x xs)
  from Cons.IH [of "max a x"] show ?case
    by (auto simp: max_def split: if_splits)
qed

lemma jmaximum_Fin:
  assumes "xs \<noteq> []"
  shows "\<exists>m \<in> set xs. jmaximum (map Fin xs) = Fin m"
proof -
  from assms obtain x rest where xs: "xs = x # rest"
    by (cases xs) auto
  have "jmaximum (map Fin xs) = foldl jmax (Fin x) (map Fin rest)"
    by (simp add: jmaximum_def xs)
  with foldl_jmax_Fin [of x rest] show ?thesis
    by (simp add: xs)
qed

lemma member_le_sum_list_real:
  fixes xs :: "real list"
  assumes "\<forall>x \<in> set xs. 0 \<le> x" "m \<in> set xs"
  shows "m \<le> sum_list xs"
  using assms
proof (induction xs)
  case Nil
  then show ?case by simp
next
  case (Cons x xs)
  have "0 \<le> sum_list xs"
    using Cons.prems(1) by (intro sum_list_nonneg) simp
  with Cons show ?case
    by (cases "m = x") auto
qed

lemma round_bounds:
  fixes x :: real
  assumes "0 \<le> x" "x \<le> 100"
  shows "0 \<le> (of_int \<lfloor>x + 1 / 2\<rfloor> :: real)" "(of_int \<lfloor>x + 1 / 2\<rfloor> :: real) \<le> 100"
proof -
  have "0 \<le> \<lfloor>x + 1 / 2\<rfloor>" using assms by simp
  then show "0 \<le> (of_int \<lfloor>x + 1 / 2\<rfloor> :: real)" by simp
  have "\<lfloor>x + 1 / 2\<rfloor> \<le> 100" using assms by (simp add: floor_le_iff)
  then have "(of_int \<lfloor>x + 1 / 2\<rfloor> :: real) \<le> of_int 100" by (simp only: of_int_le_iff)
  then show "(of_int \<lfloor>x + 1 / 2\<rfloor> :: real) \<le> 100" by simp
qed

lemma scaled_ratio:
  fixes q w :: real
  assumes "0 \<le> q" "q \<le> 1" "0 \<le> w"
  shows "0 \<le> q * w" "q * w \<le> w"
proof -
  show "0 \<le> q * w" using assms by simp
  have "q * w \<le> 1 * w" using assms by (intro mult_right_mono) auto
  then show "q * w \<le> w" by simp
qed

lemma count_ratio_bounds:
  assumes "k \<le> n" "0 < n"
  shows "0 \<le> real k / real n" "real k / real n \<le> 1"
  using assms by simp_all

lemma risk_score_bounded:
  assumes "positions \<noteq> []"
    and "\<forall>p \<in> set positions. \<exists>v. 0 \<le> v \<and> currentValueUSD p = Fin v"
    and "jlt (Fin 0) (jsum (map currentValueUSD positions))"
  shows "\<exists>r. calculatePortfolioRisk positions = Fin r \<and> 0 \<le> r \<and> r \<le> 100"
proof -
  define vs where "vs = map (\<lambda>p. finite_part (currentValueUSD p)) positions"
  have vals: "map currentValueUSD positions = map Fin vs"
    using assms(2) by (auto simp: vs_def)
  have nonneg: "\<forall>v \<in> set vs. 0 \<le> v"
    using assms(2) by (auto simp: vs_def)
  have "vs \<noteq> []"
    using assms(1) by (simp add: vs_def)
  then obtain m where m: "m \<in> set vs" "jmaximum (map Fin vs) = Fin m"
    using jmaximum_Fin by blast
  define t where "t = sum_list vs"
  have total: "jsum (map Fin vs) = Fin t"
    by (simp add: jsum_Fin t_def)
  with assms(3) vals have t: "0 < t" by simp
  have "0 \<le> m" "m \<le> t"
    using nonneg m(1) member_le_sum_list_real by (auto simp: t_def)
  with t have "0 \<le> m / t" "m / t \<le> 1"
    by (simp_all add: divide_le_eq)
  then have conc: "0 \<le> m / t * 50" "m / t * 50 \<le> 50"
    by (rule scaled_ratio, simp)+
  define n where "n = length positions"
  have n: "0 < n" using assms(1) by (simp add: n_def)
  define k where "k = length (filter (\<lambda>pos. \<not> inRange pos) positions)"
  have "k \<le> n" by (simp add: k_def n_def)
  from this n have "0 \<le> real k / real n" "real k / real n \<le> 1"
    by (rule count_ratio_bounds)+
  then have out: "0 \<le> real k / real n * 30" "real k / real n * 30 \<le> 30"
    by (rule scaled_ratio, simp)+
  define h where "h = length (filter (\<lambda>pos. riskLevel pos = High) positions)"
  define md where "md = length (filter (\<lambda>pos. riskLevel pos = Medium) positions)"
  have "h + md \<le> n"
    unfolding h_def md_def n_def
    by (induction positions) auto
  then have "h * 10 + md * 5 \<le> n * 10" by simp
  then have "real (h * 10 + md * 5) \<le> real (n * 10)" by (simp only: of_nat_le_iff)
  with n have ind: "0 \<le> real (h * 10 + md * 5) / real n" "real (h * 10 + md * 5) / real n \<le> 10"
    by (simp_all add: divide_le_eq)
  define a where "a = m / t * 50"
  define b where "b = real k / real n * 30"
  define c where "c = real (h * 10 + md * 5) / real n"
  have a: "jmul (jdiv (jmaximum (map currentValueUSD positions))
                      (jsum (map currentValueUSD positions))) (Fin 50) = Fin a"
    using t by (simp add: vals m(2) total a_def)
  have b: "jmul (jdiv (of_count (length (filter (\<lambda>pos. \<not> inRange pos) positions)))
                      (of_count (length positions))) (Fin 30) = Fin b"
    using n by (simp add: of_count_def b_def k_def n_def)
  have c: "jdiv (of_count (length (filter (\<lambda>pos. riskLevel pos = High) positions) * 10 +
                           length (filter (\<lambda>pos. riskLevel pos = Medium) positions) * 5))
                (of_count (length positions)) = Fin c"
    using n by (simp add: of_count_def c_def h_def md_def n_def)
  have x: "0 \<le> a + b + c" "a + b + c \<le> 100"
    using conc out ind unfolding a_def b_def c_def by linarith+
  have "calculatePortfolioRisk positions =
          jround (jmin (Fin 100) (jadd (jadd (Fin a) (Fin b)) (Fin c)))"
    using assms(1) by (simp add: calculatePortfolioRisk_def Let_def a b c)
  also have "\<dots> = Fin (of_int \<lfloor>a + b + c + 1 / 2\<rfloor>)"
    using x(2) by (simp add: min_def)
  finally show ?thesis
    using round_bounds [OF x] by simp
qed

lemma riskScore_of_summary:
  "riskScore (getPortfolioSummary now positions) = calculatePortfolioRisk positions"
  by (simp add: getPortfolioSummary_def getEmptyPortfolioSummary_def calculatePortfolioRisk_def
        Let_def)

text \<open>Where the total value is positive and no value is negative, the score is a
  number between 0 and 100.\<close>

lemma risk_score_in_range:
  assumes "positions \<noteq> []"
    and "\<forall>p \<in> set positions. \<exists>v. 0 \<le> v \<and> currentValueUSD p = Fin v"
    and "jlt (Fin 0) (jsum (map currentValueUSD positions))"
  shows "\<exists>r. riskScore (getPortfolioSummary now positions) = Fin r \<and> 0 \<le> r \<and> r \<le> 100"
  unfolding riskScore_of_summary using assms by (rule risk_score_bounded)

lemma risk_score_of_no_positions: "riskScore (getPortfolioSummary now []) = Fin 0"
  by (simp add: getPortfolioSummary_def getEmptyPortfolioSummary_def)

lemma idleProcessed_apy: "apy idleProcessed = Fin 0"
  by (simp add: idleProcessed_def buildPosition_def calculateFeesUSD_def amount_or_zero_def
        calculateAPY_def idleRaw_def Let_def split: prod.splits)

text \<open>
  C4. The risk score of a summary is meant to lie between 0 and 100, and it does
  whenever the total value is positive (\<open>risk_score_in_range\<close>) or the list is
  empty. It does not for a portfolio whose total value is zero: a wallet whose only
  position holds no tokens is processed to a position of value 0, the concentration
  risk is then 0 / 0, and the risk score of the summary is NaN. The weighted APY of
  the same summary is also 0 / 0, but there the source replaces NaN by 0.
\<close>

theorem risk_score_of_idle_portfolio:
  "fst (getUserPositions idleEnv ''wallet'' (freshEngine 1000000)) = Inr [idleProcessed] \<and>
   currentValueUSD idleProcessed = Fin 0 \<and>
   riskScore (getPortfolioSummary 1000305 [idleProcessed]) = NaN \<and>
   averageAPY (getPortfolioSummary 1000305 [idleProcessed]) = Fin 0"
proof -
  have risk: "calculatePortfolioRisk [idleProcessed] = NaN"
    by (simp add: calculatePortfolioRisk_def jsum_def jmaximum_def of_count_def
          inf_of_sign_def idleProcessed_values Let_def)
  have "riskScore (getPortfolioSummary 1000305 [idleProcessed]) = NaN"
    by (simp add: getPortfolioSummary_def risk Let_def)
  moreover have "averageAPY (getPortfolioSummary 1000305 [idleProcessed]) = Fin 0"
    by (simp add: getPortfolioSummary_def jsum_def or_else_def inf_of_sign_def
          idleProcessed_values idleProcessed_apy Let_def)
  ultimately show ?thesis
    by (simp add: idle_run idleProcessed_values)
qed

end
